theory Spec2Isabelle
  imports Complex_Main
begin

text \<open>
  Statistical process control from inspection records: the subgroups, the control limits
  of the X-bar and range charts, the capability indices, the histogram, the run and
  trend signals and the interpretation that \<open>calculateAnalysisData\<close> computes. The
  repository holds the module twice, as \<^verbatim>\<open>src/app/spcUtils.ts\<close> and as
  \<^verbatim>\<open>unnamed/part_000\<close>; both are embedded, function by function, and each claim is
  settled on both.
\<close>

section \<open>JavaScript numbers\<close>

text \<open>
  The analytics of the repository compute on JavaScript numbers. A number is modelled as
  a finite value, one of the two infinities, or NaN, and finite values are real numbers.
  An operation on finite values has its exact real result, unless the magnitude of that
  result reaches \<open>2^1024 - 2^970\<close>, from where IEEE 754 rounds to an infinity: then the
  result is the infinity of its sign. Below that bound a result is kept exact, so the
  rounding to 53 bits, and with it the underflow to zero, is not modelled. There is one
  zero, which divides as the positive zero does. Everything else follows IEEE 754 as
  JavaScript applies it: NaN is absorbing, every comparison with NaN is false, a
  non-zero finite value divided by zero is an infinity, and \<open>0 / 0\<close>,
  \<open>Infinity - Infinity\<close> and \<open>0 * Infinity\<close> are NaN.
\<close>

datatype number = Fin real | PInf | NInf | NaN

definition overflowThreshold :: real where
  "overflowThreshold = 2 ^ 1024 - 2 ^ 970"

text \<open>The number that holds the real result of an operation.\<close>

definition ofReal :: "real \<Rightarrow> number" where
  "ofReal r =
     (if overflowThreshold \<le> r then PInf
      else if r \<le> - overflowThreshold then NInf else Fin r)"

instantiation number :: "{zero, plus, uminus, minus, times, inverse, abs, ord}"
begin

definition zero_number :: number where
  "zero_number = Fin 0"

fun plus_number :: "number \<Rightarrow> number \<Rightarrow> number" where
  "plus_number (Fin a) (Fin b) = ofReal (a + b)"
| "plus_number NaN y = NaN"
| "plus_number x NaN = NaN"
| "plus_number PInf NInf = NaN"
| "plus_number NInf PInf = NaN"
| "plus_number PInf y = PInf"
| "plus_number x PInf = PInf"
| "plus_number NInf y = NInf"
| "plus_number x NInf = NInf"

fun uminus_number :: "number \<Rightarrow> number" where
  "uminus_number (Fin a) = Fin (- a)"
| "uminus_number PInf = NInf"
| "uminus_number NInf = PInf"
| "uminus_number NaN = NaN"

definition minus_number :: "number \<Rightarrow> number \<Rightarrow> number" where
  "minus_number x y = x + (- y)"

fun times_number :: "number \<Rightarrow> number \<Rightarrow> number" where
  "times_number (Fin a) (Fin b) = ofReal (a * b)"
| "times_number NaN y = NaN"
| "times_number x NaN = NaN"
| "times_number PInf (Fin b) = (if b = 0 then NaN else if 0 < b then PInf else NInf)"
| "times_number NInf (Fin b) = (if b = 0 then NaN else if 0 < b then NInf else PInf)"
| "times_number (Fin a) PInf = (if a = 0 then NaN else if 0 < a then PInf else NInf)"
| "times_number (Fin a) NInf = (if a = 0 then NaN else if 0 < a then NInf else PInf)"
| "times_number PInf PInf = PInf"
| "times_number PInf NInf = NInf"
| "times_number NInf PInf = NInf"
| "times_number NInf NInf = PInf"

fun inverse_number :: "number \<Rightarrow> number" where
  "inverse_number (Fin a) = (if a = 0 then PInf else ofReal (inverse a))"
| "inverse_number PInf = Fin 0"
| "inverse_number NInf = Fin 0"
| "inverse_number NaN = NaN"

fun divide_number :: "number \<Rightarrow> number \<Rightarrow> number" where
  "divide_number (Fin a) (Fin b) =
     (if b \<noteq> 0 then ofReal (a / b)
      else if a = 0 then NaN else if 0 < a then PInf else NInf)"
| "divide_number NaN y = NaN"
| "divide_number x NaN = NaN"
| "divide_number (Fin a) PInf = Fin 0"
| "divide_number (Fin a) NInf = Fin 0"
| "divide_number PInf (Fin b) = (if 0 \<le> b then PInf else NInf)"
| "divide_number NInf (Fin b) = (if 0 \<le> b then NInf else PInf)"
| "divide_number x y = NaN"

fun abs_number :: "number \<Rightarrow> number" where
  "abs_number (Fin a) = Fin \<bar>a\<bar>"
| "abs_number PInf = PInf"
| "abs_number NInf = PInf"
| "abs_number NaN = NaN"

fun less_number :: "number \<Rightarrow> number \<Rightarrow> bool" where
  "less_number (Fin a) (Fin b) = (a < b)"
| "less_number NaN y = False"
| "less_number x NaN = False"
| "less_number x NInf = False"
| "less_number PInf y = False"
| "less_number NInf y = True"
| "less_number x PInf = True"

definition less_eq_number :: "number \<Rightarrow> number \<Rightarrow> bool" where
  "less_eq_number x y = (x < y \<or> (x = y \<and> x \<noteq> NaN))"

instance ..

end

text \<open>\<open>x === y\<close> on numbers: NaN is not equal to itself.\<close>

definition strictEq :: "number \<Rightarrow> number \<Rightarrow> bool" where
  "strictEq x y = (x = y \<and> x \<noteq> NaN)"

text \<open>\<open>isNaN\<close>, \<open>isFinite\<close> and \<open>Number.isFinite\<close> (the same on a number).\<close>

fun isNaN :: "number \<Rightarrow> bool" where
  "isNaN NaN = True"
| "isNaN x = False"

fun isFinite :: "number \<Rightarrow> bool" where
  "isFinite (Fin a) = True"
| "isFinite x = False"

text \<open>\<open>Math.sqrt\<close>, \<open>Math.pow(x, 2)\<close>, \<open>Math.floor\<close>.\<close>

fun Math_sqrt :: "number \<Rightarrow> number" where
  "Math_sqrt (Fin a) = (if a < 0 then NaN else Fin (sqrt a))"
| "Math_sqrt PInf = PInf"
| "Math_sqrt NInf = NaN"
| "Math_sqrt NaN = NaN"

fun Math_pow2 :: "number \<Rightarrow> number" where
  "Math_pow2 (Fin a) = ofReal (a ^ 2)"
| "Math_pow2 PInf = PInf"
| "Math_pow2 NInf = PInf"
| "Math_pow2 NaN = NaN"

fun Math_floor :: "number \<Rightarrow> number" where
  "Math_floor (Fin a) = Fin (of_int \<lfloor>a\<rfloor>)"
| "Math_floor x = x"

text \<open>
  \<open>Math.min(a, b)\<close> and \<open>Math.max(a, b)\<close>: NaN if an argument is NaN. Spread over an
  array, \<open>Math.max(...xs)\<close> starts from \<open>-Infinity\<close> and \<open>Math.min(...xs)\<close> from
  \<open>Infinity\<close>. The spread passes one argument for each element. How many arguments a
  call may have is a limit of the engine that runs the code, not of the code: the model
  has none, where an engine gives up on an array of some hundred thousand elements with
  a \<open>RangeError\<close>.
\<close>

definition Math_min2 :: "number \<Rightarrow> number \<Rightarrow> number" where
  "Math_min2 x y = (if isNaN x \<or> isNaN y then NaN else if y < x then y else x)"

definition Math_max2 :: "number \<Rightarrow> number \<Rightarrow> number" where
  "Math_max2 x y = (if isNaN x \<or> isNaN y then NaN else if x < y then y else x)"

definition Math_min :: "number list \<Rightarrow> number" where
  "Math_min xs = foldl Math_min2 PInf xs"

definition Math_max :: "number list \<Rightarrow> number" where
  "Math_max xs = foldl Math_max2 NInf xs"

text \<open>The reducer \<open>xs.reduce((sum, v) => sum + v, 0)\<close>.\<close>

definition reduce_sum :: "number list \<Rightarrow> number" where
  "reduce_sum xs = foldl (+) (Fin 0) xs"

text \<open>
  \<open>Number(x.toFixed(d))\<close>: a finite value below \<open>10^21\<close> in magnitude is rounded to \<open>d\<close>
  decimals, halves away from zero; from \<open>10^21\<close> on \<open>toFixed\<close> prints the number as
  \<open>toString\<close> does, which \<open>Number\<close> reads back unchanged, as it does the names that NaN
  and the infinities print as.
\<close>

fun toFixed :: "number \<Rightarrow> nat \<Rightarrow> number" where
  "toFixed (Fin a) d =
     (if 10 ^ 21 \<le> \<bar>a\<bar> then Fin a
      else Fin (sgn a * of_int \<lfloor>\<bar>a\<bar> * 10 ^ d + 1 / 2\<rfloor> / 10 ^ d))"
| "toFixed x d = x"

text \<open>\<open>xs.slice(a, b)\<close> for \<open>0 \<le> a\<close> and \<open>0 \<le> b\<close>.\<close>

definition slice :: "'a list \<Rightarrow> nat \<Rightarrow> nat \<Rightarrow> 'a list" where
  "slice xs a b = take (b - a) (drop a xs)"

section \<open>Data model\<close>

text \<open>
  The two source files \<^verbatim>\<open>src/app/spcUtils.ts\<close> and \<^verbatim>\<open>unnamed/part_000\<close> are two
  variants of the same module. A function of \<^verbatim>\<open>src/app/spcUtils.ts\<close> keeps its name; the
  function of the same name in \<^verbatim>\<open>unnamed/part_000\<close> carries the suffix \<open>_p0\<close>.

  An inspection record has three textual fields, and the code reads each of them only
  through \<open>parseFloat\<close>. A field of the model holds the number \<open>parseFloat\<close> returns
  for the field's text: NaN for text that is not numeric.
\<close>

record InspectionData =
  ActualSpecification :: number
  FromSpecification :: number
  ToSpecification :: number

record constants =
  A2 :: number
  D3 :: number
  D4 :: number
  d2 :: number

text \<open>
  The table has the keys \<open>"1"\<close> to \<open>"5"\<close> and is read at \<open>sampleSize.toString()\<close>. The
  model takes an integer sample size; a number that is not an integer prints to a text
  that is no key of the table, as an integer outside 1 to 5 does.
\<close>

definition controlChartConstants :: "int \<Rightarrow> constants option" where
  "controlChartConstants k =
     (if k = 1 then Some \<lparr>A2 = Fin 2.66, D3 = Fin 0, D4 = Fin 3.267, d2 = Fin 1.128\<rparr>
      else if k = 2 then Some \<lparr>A2 = Fin 1.88, D3 = Fin 0, D4 = Fin 3.267, d2 = Fin 1.128\<rparr>
      else if k = 3 then Some \<lparr>A2 = Fin 1.772, D3 = Fin 0, D4 = Fin 2.574, d2 = Fin 1.693\<rparr>
      else if k = 4 then Some \<lparr>A2 = Fin 0.796, D3 = Fin 0, D4 = Fin 2.282, d2 = Fin 2.059\<rparr>
      else if k = 5 then Some \<lparr>A2 = Fin 0.691, D3 = Fin 0, D4 = Fin 2.114, d2 = Fin 2.326\<rparr>
      else None)"

text \<open>A thrown \<open>Error(message)\<close>.\<close>

datatype error = Error string

text \<open>
  The returned \<open>AnalysisData\<close> object. A field of a nested object carries the object's
  short name as a prefix, since the function bodies use the bare names for their local
  values. A chart point \<open>{x, y}\<close> is a pair; a histogram count is a natural number.
\<close>

record Metrics =
  m_xBar :: number
  m_stdDevOverall :: number
  m_stdDevWithin :: number
  m_avgRange :: number
  m_cp :: number
  m_cpu :: number
  m_cpl :: number
  m_cpk :: number
  m_pp :: number
  m_ppu :: number
  m_ppl :: number
  m_ppk :: number
  m_lsl :: number
  m_usl :: number
  m_target :: number

record Limits =
  lim_xBarUcl :: number
  lim_xBarMean :: number
  lim_xBarLcl :: number
  lim_rangeUcl :: number
  lim_rangeMean :: number
  lim_rangeLcl :: number
  lim_Agostinho :: number

record ControlCharts =
  cc_xBarData :: "(nat \<times> number) list"
  cc_rangeData :: "(nat \<times> number) list"
  cc_limits :: Limits

record Stats =
  st_mean :: number
  st_target :: number
  st_binEdges :: "number list"
  st_min :: number
  st_max :: number

record Distribution =
  dist_data :: "(number \<times> nat) list"
  dist_stats :: Stats

record SsAnalysis =
  ss_processShift :: string
  ss_processSpread :: string
  ss_specialCausePresent :: string
  ss_pointsOutsideLimits :: string
  ss_rangePointsOutsideLimits :: string
  ss_eightConsecutivePoints :: string
  ss_sixConsecutiveTrend :: string

record ProcessInterpretation =
  pi_decisionRemark :: string
  pi_processPotential :: string
  pi_processPerformance :: string
  pi_processStability :: string
  pi_processShift :: string

record AnalysisData =
  r_metrics :: Metrics
  r_controlCharts :: ControlCharts
  r_distribution :: Distribution
  r_ssAnalysis :: SsAnalysis
  r_processInterpretation :: ProcessInterpretation

text \<open>The decimal text of a count, for the template \<open>`${n} Points Detected`\<close>.\<close>

fun toString_nat :: "nat \<Rightarrow> string" where
  "toString_nat n =
     (if n < 10 then [char_of (48 + n)]
      else toString_nat (n div 10) @ [char_of (48 + n mod 10)])"

text \<open>The points \<open>ys.map((y, i) => ({ x: i + 1, y }))\<close>.\<close>

definition chartPoints :: "number list \<Rightarrow> (nat \<times> number) list" where
  "chartPoints ys = zip [1..<length ys + 1] ys"

text \<open>\<open>v ?? 0\<close> for a value that is a number or \<open>null\<close>.\<close>

fun orZero :: "number option \<Rightarrow> number" where
  "orZero None = Fin 0"
| "orZero (Some v) = v"

text \<open>\<open>Math.ceil(Math.sqrt(n))\<close> for an array length \<open>n\<close>.\<close>

definition ceilSqrt :: "nat \<Rightarrow> nat" where
  "ceilSqrt n = nat \<lceil>sqrt (real n)\<rceil>"

text \<open>
  \<open>bins[index]++\<close> for an index that passed the test \<open>0 <= index && index < binCount\<close>,
  hence a finite integral number.
\<close>

fun toIndex :: "number \<Rightarrow> nat" where
  "toIndex (Fin a) = nat \<lfloor>a\<rfloor>"
| "toIndex x = 0"

definition increment :: "nat list \<Rightarrow> nat \<Rightarrow> nat list" where
  "increment bins i = bins[i := bins ! i + 1]"

section \<open>The variant \<^verbatim>\<open>src/app/spcUtils.ts\<close>\<close>

subsection \<open>Subgroups\<close>

text \<open>
  The loops \<open>for (let i = 0; i < measurements.length; i += sampleSize)\<close> return the
  values they push, in order. \<open>calculateAnalysisData\<close> calls them with a sample size
  of 2 to 5 only; with a sample size of 0 the source would not leave the loop, and the
  model returns at once.
\<close>

function xBar_loop :: "number list \<Rightarrow> nat \<Rightarrow> nat \<Rightarrow> number list" where
  "xBar_loop measurements sampleSize i =
     (if 0 < sampleSize \<and> i < length measurements then
        (let subgroup = slice measurements i (min (i + sampleSize) (length measurements)) in
           (if 0 < length subgroup
            then [reduce_sum subgroup / Fin (real (length subgroup))] else [])
           @ xBar_loop measurements sampleSize (i + sampleSize))
      else [])"
  by pat_completeness auto
termination
  by (relation "measure (\<lambda>(m, s, i). length m - i)") auto

definition calculateSubgroupXBar :: "number list \<Rightarrow> nat \<Rightarrow> number list" where
  "calculateSubgroupXBar measurements sampleSize =
     (if sampleSize = 1 then measurements else xBar_loop measurements sampleSize 0)"

text \<open>The moving ranges \<open>|m[i] - m[i - 1]|\<close> for \<open>i = 1, ..., length - 1\<close>.\<close>

fun movingRanges :: "number list \<Rightarrow> number list" where
  "movingRanges (a # b # rest) = \<bar>b - a\<bar> # movingRanges (b # rest)"
| "movingRanges rest = []"

function range_loop :: "number list \<Rightarrow> nat \<Rightarrow> nat \<Rightarrow> number list" where
  "range_loop measurements sampleSize i =
     (if 0 < sampleSize \<and> i < length measurements then
        (let subgroup = slice measurements i (min (i + sampleSize) (length measurements)) in
           (if 1 < length subgroup then [Math_max subgroup - Math_min subgroup] else [])
           @ range_loop measurements sampleSize (i + sampleSize))
      else [])"
  by pat_completeness auto
termination
  by (relation "measure (\<lambda>(m, s, i). length m - i)") auto

definition calculateSubgroupRanges :: "number list \<Rightarrow> nat \<Rightarrow> number list" where
  "calculateSubgroupRanges measurements sampleSize =
     (if sampleSize = 1 then movingRanges measurements
      else range_loop measurements sampleSize 0)"

subsection \<open>Mean and standard deviation\<close>

definition calculateMean :: "number list \<Rightarrow> number option" where
  "calculateMean data =
     (if length data = 0 then None
      else Some (reduce_sum data / Fin (real (length data))))"

definition calculateStdDev :: "number list \<Rightarrow> number option \<Rightarrow> number option" where
  "calculateStdDev data mean =
     (if length data = 0 then None
      else (case (case mean of Some m \<Rightarrow> Some m | None \<Rightarrow> calculateMean data) of
              None \<Rightarrow> None
            | Some dataMean \<Rightarrow>
                (let squaredDiffs = map (\<lambda>v. Math_pow2 (v - dataMean)) data;
                     variance = calculateMean squaredDiffs
                 in (case variance of Some v \<Rightarrow> Some (Math_sqrt v) | None \<Rightarrow> None))))"

subsection \<open>Histogram\<close>

text \<open>One call of the \<open>forEach\<close> callback on the bin counts.\<close>

definition bin_step :: "number \<Rightarrow> nat \<Rightarrow> number \<Rightarrow> number \<Rightarrow> nat list \<Rightarrow> number \<Rightarrow> nat list" where
  "bin_step mx binCount binStart binWidth bins v =
     (if strictEq v mx then increment bins (binCount - 1)
      else (let binIndex = Math_floor ((v - binStart) / binWidth) in
              if Fin 0 \<le> binIndex \<and> binIndex < Fin (real binCount)
              then increment bins (toIndex binIndex) else bins))"

definition histogramPoints :: "number list \<Rightarrow> number \<Rightarrow> nat list \<Rightarrow> (number \<times> nat) list" where
  "histogramPoints binEdges binWidth bins =
     map (\<lambda>i. (toFixed (binEdges ! i + binWidth / Fin 2) 4, bins ! i)) [0..<length bins]"

definition calculateDistributionData :: "number list \<Rightarrow> number \<Rightarrow> number \<Rightarrow> Distribution option" where
  "calculateDistributionData data lsl usl =
     (if length data = 0 then None
      else (let mn = Math_min data;
                mx = Math_max data;
                range = mx - mn;
                binCount = ceilSqrt (length data);
                binWidth = range / Fin (real binCount);
                binStart = Math_min2 mn lsl;
                binEdges = map (\<lambda>i. binStart + Fin (real i) * binWidth) [0..<binCount + 1];
                bins = foldl (bin_step mx binCount binStart binWidth) (replicate binCount 0) data;
                histData = histogramPoints binEdges binWidth bins
            in Some \<lparr>dist_data = histData,
                      dist_stats = \<lparr>st_mean = orZero (calculateMean data),
                                     st_target = (usl + lsl) / Fin 2,
                                     st_binEdges = binEdges,
                                     st_min = mn,
                                     st_max = mx\<rparr>\<rparr>))"

subsection \<open>Runs and trends\<close>

text \<open>The counters of the loop over the X-bar points.\<close>

record runState =
  consecutiveAboveMean :: nat
  consecutiveBelowMean :: nat
  maxConsecutiveAbove :: nat
  maxConsecutiveBelow :: nat
  consecutiveIncreasing :: nat
  consecutiveDecreasing :: nat

definition mean_step :: "number \<Rightarrow> number \<Rightarrow> runState \<Rightarrow> runState" where
  "mean_step grandMean y s =
     (if grandMean < y then
        s\<lparr>consecutiveAboveMean := consecutiveAboveMean s + 1,
          consecutiveBelowMean := 0,
          maxConsecutiveAbove := max (maxConsecutiveAbove s) (consecutiveAboveMean s + 1)\<rparr>
      else if y < grandMean then
        s\<lparr>consecutiveBelowMean := consecutiveBelowMean s + 1,
          consecutiveAboveMean := 0,
          maxConsecutiveBelow := max (maxConsecutiveBelow s) (consecutiveBelowMean s + 1)\<rparr>
      else s\<lparr>consecutiveAboveMean := 0, consecutiveBelowMean := 0\<rparr>)"

text \<open>The trend check of one round; \<open>prev\<close> is the point before, absent when \<open>i = 0\<close>.\<close>

definition trend_step :: "number option \<Rightarrow> number \<Rightarrow> runState \<Rightarrow> runState" where
  "trend_step prev y s =
     (case prev of
        None \<Rightarrow> s
      | Some p \<Rightarrow>
          (if p < y then
             s\<lparr>consecutiveIncreasing := consecutiveIncreasing s + 1, consecutiveDecreasing := 0\<rparr>
           else if y < p then
             s\<lparr>consecutiveDecreasing := consecutiveDecreasing s + 1, consecutiveIncreasing := 0\<rparr>
           else s\<lparr>consecutiveIncreasing := 0, consecutiveDecreasing := 0\<rparr>))"

fun runs_loop :: "number \<Rightarrow> number option \<Rightarrow> runState \<Rightarrow> number list \<Rightarrow> runState" where
  "runs_loop grandMean prev s [] = s"
| "runs_loop grandMean prev s (y # ys) =
     runs_loop grandMean (Some y) (trend_step prev y (mean_step grandMean y s)) ys"

definition runState0 :: runState where
  "runState0 = \<lparr>consecutiveAboveMean = 0, consecutiveBelowMean = 0,
                maxConsecutiveAbove = 0, maxConsecutiveBelow = 0,
                consecutiveIncreasing = 0, consecutiveDecreasing = 0\<rparr>"

subsection \<open>The analysis\<close>

text \<open>
  The local values of \<open>calculateAnalysisData\<close> after its two checks, each under the name
  of its \<open>const\<close> with the prefix \<open>v_\<close>.
\<close>

record locals =
  v_measurements :: "number list"
  v_lsl :: number
  v_usl :: number
  v_xBarValues :: "number list"
  v_rangeValues :: "number list"
  v_grandMean :: number
  v_avgRange :: number
  v_xBarUcl :: number
  v_xBarLcl :: number
  v_rangeUcl :: number
  v_rangeLcl :: number
  v_stdDev :: number
  v_withinStdDev :: number
  v_safeWithinStdDev :: number
  v_safeStdDev :: number
  v_cp :: number
  v_cpu :: number
  v_cpl :: number
  v_cpk :: number
  v_pp :: number
  v_ppu :: number
  v_ppl :: number
  v_ppk :: number
  v_pointsOutsideXBarLimits :: nat
  v_pointsOutsideRangeLimits :: nat
  v_hasEightConsecutive :: bool
  v_hasSixConsecutiveTrend :: bool

text \<open>
  \<open>inspectionData[0]\<close> is read after the check of the number of measurements, so the
  list has a first record.
\<close>

definition analysis_locals ::
  "InspectionData list \<Rightarrow> nat \<Rightarrow> constants \<Rightarrow> number list \<Rightarrow> locals" where
  "analysis_locals inspectionData sampleSize cs measurements =
     (let lsl = FromSpecification (inspectionData ! 0);
          usl = ToSpecification (inspectionData ! 0);
          xBarValues = calculateSubgroupXBar measurements sampleSize;
          rangeValues = calculateSubgroupRanges measurements sampleSize;
          grandMean = orZero (calculateMean xBarValues);
          avgRange = orZero (calculateMean rangeValues);
          xBarUcl = grandMean + A2 cs * avgRange;
          xBarLcl = grandMean - A2 cs * avgRange;
          rangeUcl = D4 cs * avgRange;
          rangeLcl = D3 cs * avgRange;
          stdDev = orZero (calculateStdDev measurements None);
          withinStdDev = avgRange / d2 cs;
          safeWithinStdDev = (if strictEq withinStdDev (Fin 0) then Fin 0.000001 else withinStdDev);
          safeStdDev = (if strictEq stdDev (Fin 0) then Fin 0.000001 else stdDev);
          cp = (usl - lsl) / (Fin 6 * safeWithinStdDev);
          cpu = (usl - grandMean) / (Fin 3 * safeWithinStdDev);
          cpl = (grandMean - lsl) / (Fin 3 * safeWithinStdDev);
          cpk = Math_min2 cpu cpl;
          pp = (usl - lsl) / (Fin 6 * safeStdDev);
          ppu = (usl - grandMean) / (Fin 3 * safeStdDev);
          ppl = (grandMean - lsl) / (Fin 3 * safeStdDev);
          ppk = Math_min2 ppu ppl;
          pointsOutsideXBarLimits = length (filter (\<lambda>y. xBarUcl < y \<or> y < xBarLcl) xBarValues);
          pointsOutsideRangeLimits = length (filter (\<lambda>y. rangeUcl < y \<or> y < rangeLcl) rangeValues);
          s = runs_loop grandMean None runState0 xBarValues;
          hasEightConsecutive = (8 \<le> maxConsecutiveAbove s \<or> 8 \<le> maxConsecutiveBelow s);
          hasSixConsecutiveTrend = (6 \<le> consecutiveIncreasing s \<or> 6 \<le> consecutiveDecreasing s)
      in \<lparr>v_measurements = measurements, v_lsl = lsl, v_usl = usl,
          v_xBarValues = xBarValues, v_rangeValues = rangeValues,
          v_grandMean = grandMean, v_avgRange = avgRange,
          v_xBarUcl = xBarUcl, v_xBarLcl = xBarLcl, v_rangeUcl = rangeUcl, v_rangeLcl = rangeLcl,
          v_stdDev = stdDev, v_withinStdDev = withinStdDev,
          v_safeWithinStdDev = safeWithinStdDev, v_safeStdDev = safeStdDev,
          v_cp = cp, v_cpu = cpu, v_cpl = cpl, v_cpk = cpk,
          v_pp = pp, v_ppu = ppu, v_ppl = ppl, v_ppk = ppk,
          v_pointsOutsideXBarLimits = pointsOutsideXBarLimits,
          v_pointsOutsideRangeLimits = pointsOutsideRangeLimits,
          v_hasEightConsecutive = hasEightConsecutive,
          v_hasSixConsecutiveTrend = hasSixConsecutiveTrend\<rparr>)"

text \<open>\<open>Number(isFinite(c) ? c.toFixed(2) : "0.00")\<close>.\<close>

definition finiteOrZero :: "number \<Rightarrow> number" where
  "finiteOrZero c = (if isFinite c then toFixed c 2 else Fin 0)"

definition pointsLabel :: "nat \<Rightarrow> string" where
  "pointsLabel n = (if 0 < n then toString_nat n @ '' Points Detected'' else ''None'')"

text \<open>The returned object.\<close>

definition analysis_result :: "locals \<Rightarrow> AnalysisData" where
  "analysis_result v =
     \<lparr>r_metrics =
        \<lparr>m_xBar = toFixed (v_grandMean v) 4,
         m_stdDevOverall = toFixed (v_stdDev v) 4,
         m_stdDevWithin = toFixed (v_withinStdDev v) 4,
         m_avgRange = toFixed (v_avgRange v) 4,
         m_cp = finiteOrZero (v_cp v),
         m_cpu = finiteOrZero (v_cpu v),
         m_cpl = finiteOrZero (v_cpl v),
         m_cpk = finiteOrZero (v_cpk v),
         m_pp = finiteOrZero (v_pp v),
         m_ppu = finiteOrZero (v_ppu v),
         m_ppl = finiteOrZero (v_ppl v),
         m_ppk = finiteOrZero (v_ppk v),
         m_lsl = toFixed (v_lsl v) 3,
         m_usl = toFixed (v_usl v) 3,
         m_target = toFixed ((v_usl v + v_lsl v) / Fin 2) 3\<rparr>,
      r_controlCharts =
        \<lparr>cc_xBarData = chartPoints (v_xBarValues v),
         cc_rangeData = chartPoints (v_rangeValues v),
         cc_limits =
           \<lparr>lim_xBarUcl = toFixed (v_xBarUcl v) 4,
            lim_xBarMean = toFixed (v_grandMean v) 4,
            lim_xBarLcl = toFixed (v_xBarLcl v) 4,
            lim_rangeUcl = toFixed (v_rangeUcl v) 4,
            lim_rangeMean = toFixed (v_avgRange v) 4,
            lim_rangeLcl = toFixed (v_rangeLcl v) 4,
            lim_Agostinho =
              toFixed (\<bar>v_grandMean v - orZero (calculateMean (v_measurements v))\<bar> / v_stdDev v) 4\<rparr>\<rparr>,
      r_distribution =
        (case calculateDistributionData (v_measurements v) (v_lsl v) (v_usl v) of
           Some d \<Rightarrow> d
         | None \<Rightarrow>
             \<lparr>dist_data = [],
              dist_stats = \<lparr>st_mean = Fin 0, st_target = (v_usl v + v_lsl v) / Fin 2,
                             st_binEdges = [], st_min = Fin 0, st_max = Fin 0\<rparr>\<rparr>),
      r_ssAnalysis =
        \<lparr>ss_processShift = (if v_cpk v < Fin 0.75 * v_cp v then ''Yes'' else ''No''),
         ss_processSpread = (if v_cp v < Fin 1 then ''Yes'' else ''No''),
         ss_specialCausePresent =
           (if v_cp v \<le> v_pp v then ''Special Cause Detection impossible''
            else if v_pp v < Fin 0.75 * v_cp v then ''Yes'' else ''No''),
         ss_pointsOutsideLimits = pointsLabel (v_pointsOutsideXBarLimits v),
         ss_rangePointsOutsideLimits = pointsLabel (v_pointsOutsideRangeLimits v),
         ss_eightConsecutivePoints = (if v_hasEightConsecutive v then ''Yes'' else ''No''),
         ss_sixConsecutiveTrend = (if v_hasSixConsecutiveTrend v then ''Yes'' else ''No'')\<rparr>,
      r_processInterpretation =
        \<lparr>pi_decisionRemark =
           (if Fin 1.67 \<le> v_cpk v then ''Process Excellent''
            else if Fin 1.45 \<le> v_cpk v
              then ''Process is more capable, Scope for Further Improvement''
            else if Fin 1.33 \<le> v_cpk v
              then ''Process is capable, Scope for Further Improvement''
            else if Fin 1.0 \<le> v_cpk v
              then ''Process is slightly capable, need 100% inspection''
            else ''Stop Process change, process design''),
         pi_processPotential =
           (if Fin 1.33 \<le> v_cp v then ''Excellent''
            else if Fin 1.0 \<le> v_cp v then ''Good'' else ''Poor''),
         pi_processPerformance =
           (if Fin 1.33 \<le> v_cpk v then ''Excellent''
            else if Fin 1.0 \<le> v_cpk v then ''Good'' else ''Poor''),
         pi_processStability =
           (if v_pointsOutsideXBarLimits v = 0 \<and> \<not> v_hasEightConsecutive v
            then ''Stable'' else ''Unstable''),
         pi_processShift = (if v_hasEightConsecutive v then ''Present'' else ''Not Detected'')\<rparr>\<rparr>"

text \<open>
  The function up to its \<open>return\<close>: the two checks, each of which throws, and the local
  values.
\<close>

definition analysis_body :: "InspectionData list \<Rightarrow> int \<Rightarrow> error + locals" where
  "analysis_body inspectionData sampleSize =
     (case controlChartConstants sampleSize of
        None \<Rightarrow> Inl (Error ''Sample size must be between 1 and 5'')
      | Some cs \<Rightarrow>
          (let measurements = filter (\<lambda>m. \<not> isNaN m) (map ActualSpecification inspectionData) in
             if int (length measurements) < sampleSize
             then Inl (Error ''Insufficient valid data for analysis'')
             else Inr (analysis_locals inspectionData (nat sampleSize) cs measurements)))"

definition calculateAnalysisData :: "InspectionData list \<Rightarrow> int \<Rightarrow> error + AnalysisData" where
  "calculateAnalysisData inspectionData sampleSize =
     (case analysis_body inspectionData sampleSize of
        Inl e \<Rightarrow> Inl e
      | Inr v \<Rightarrow> Inr (analysis_result v))"

section \<open>The variant \<^verbatim>\<open>unnamed/part_000\<close>\<close>

subsection \<open>Mean and standard deviation\<close>

definition calculateMean_p0 :: "number list \<Rightarrow> number option" where
  "calculateMean_p0 data =
     (if length data = 0 then None
      else (let filtered = filter isFinite data in
              if length filtered \<noteq> 0
              then Some (reduce_sum filtered / Fin (real (length filtered))) else None))"

definition calculateStdDev_p0 :: "number list \<Rightarrow> number option \<Rightarrow> number option" where
  "calculateStdDev_p0 data mean =
     (if length data = 0 then None
      else (case (case mean of Some m \<Rightarrow> Some m | None \<Rightarrow> calculateMean_p0 data) of
              None \<Rightarrow> None
            | Some m \<Rightarrow>
                (let squaredDiffs = filter isFinite (map (\<lambda>v. Math_pow2 (v - m)) data);
                     variance = calculateMean_p0 squaredDiffs
                 in (case variance of Some v \<Rightarrow> Some (Math_sqrt v) | None \<Rightarrow> None))))"

subsection \<open>Histogram\<close>

definition bin_step_p0 :: "number \<Rightarrow> nat \<Rightarrow> number \<Rightarrow> number \<Rightarrow> nat list \<Rightarrow> number \<Rightarrow> nat list" where
  "bin_step_p0 mx binCount binStart binWidth bins v =
     (if \<not> isFinite v then bins
      else (let index = (if strictEq v mx then Fin (real binCount - 1)
                         else Math_floor ((v - binStart) / binWidth)) in
              if Fin 0 \<le> index \<and> index < Fin (real binCount)
              then increment bins (toIndex index) else bins))"

definition calculateDistributionData_p0 :: "number list \<Rightarrow> number \<Rightarrow> number \<Rightarrow> Distribution option" where
  "calculateDistributionData_p0 data lsl usl =
     (if length data = 0 then None
      else (let mn = Math_min data;
                mx = Math_max data;
                range = mx - mn;
                binCount = ceilSqrt (length data);
                binWidth = range / Fin (real binCount);
                binStart = Math_min2 mn lsl;
                bins = foldl (bin_step_p0 mx binCount binStart binWidth) (replicate binCount 0) data;
                binEdges = map (\<lambda>i. binStart + Fin (real i) * binWidth) [0..<binCount + 1];
                histData = histogramPoints binEdges binWidth bins
            in Some \<lparr>dist_data = histData,
                      dist_stats = \<lparr>st_mean = orZero (calculateMean_p0 data),
                                     st_target = (lsl + usl) / Fin 2,
                                     st_binEdges = binEdges,
                                     st_min = mn,
                                     st_max = mx\<rparr>\<rparr>))"

subsection \<open>Runs and trends\<close>

record Runs =
  runsAbove :: nat
  runsBelow :: nat
  maxRunLength :: nat
  maxTrendUp :: nat
  maxTrendDown :: nat

text \<open>The variables of the \<open>forEach\<close> over the points, with the prefix \<open>sc_\<close>.\<close>

record runScan =
  sc_runsAbove :: nat
  sc_runsBelow :: nat
  sc_maxRunLength :: nat
  sc_currentRun :: nat
  sc_prevAboveMean :: "bool option"

text \<open>\<open>if (prevAboveMean) runsAbove++; else runsBelow++; maxRunLength = Math.max(...)\<close>.\<close>

definition close_run :: "bool \<Rightarrow> runScan \<Rightarrow> runScan" where
  "close_run p s =
     (if p then s\<lparr>sc_runsAbove := sc_runsAbove s + 1\<rparr> else s\<lparr>sc_runsBelow := sc_runsBelow s + 1\<rparr>)
       \<lparr>sc_maxRunLength := max (sc_maxRunLength s) (sc_currentRun s)\<rparr>"

definition scan_step :: "number \<Rightarrow> runScan \<Rightarrow> number \<Rightarrow> runScan" where
  "scan_step mean s v =
     (let isAbove = (mean < v) in
        case sc_prevAboveMean s of
          None \<Rightarrow> s\<lparr>sc_prevAboveMean := Some isAbove, sc_currentRun := 1\<rparr>
        | Some p \<Rightarrow>
            (if isAbove = p then s\<lparr>sc_currentRun := sc_currentRun s + 1\<rparr>
             else (close_run p s)\<lparr>sc_currentRun := 1, sc_prevAboveMean := Some isAbove\<rparr>))"

definition scan_end :: "runScan \<Rightarrow> runScan" where
  "scan_end s = (case sc_prevAboveMean s of None \<Rightarrow> s | Some p \<Rightarrow> close_run p s)"

definition runScan0 :: runScan where
  "runScan0 = \<lparr>sc_runsAbove = 0, sc_runsBelow = 0, sc_maxRunLength = 0, sc_currentRun = 0,
               sc_prevAboveMean = None\<rparr>"

text \<open>The variables of the trend loop, with the prefix \<open>t_\<close>.\<close>

record trendScan =
  t_maxTrendUp :: nat
  t_maxTrendDown :: nat
  t_trendUp :: nat
  t_trendDown :: nat

text \<open>One round of the trend loop, at \<open>a = data[i - 1]\<close> and \<open>b = data[i]\<close>.\<close>

definition trend_step_p0 :: "number \<Rightarrow> number \<Rightarrow> trendScan \<Rightarrow> trendScan" where
  "trend_step_p0 a b s =
     (let s' = (if a < b then s\<lparr>t_trendUp := t_trendUp s + 1, t_trendDown := 1\<rparr>
                else if b < a then s\<lparr>t_trendDown := t_trendDown s + 1, t_trendUp := 1\<rparr>
                else s\<lparr>t_trendUp := 1, t_trendDown := 1\<rparr>)
      in s'\<lparr>t_maxTrendUp := max (t_maxTrendUp s') (t_trendUp s'),
            t_maxTrendDown := max (t_maxTrendDown s') (t_trendDown s')\<rparr>)"

fun trend_loop_p0 :: "trendScan \<Rightarrow> number list \<Rightarrow> trendScan" where
  "trend_loop_p0 s (a # b # rest) = trend_loop_p0 (trend_step_p0 a b s) (b # rest)"
| "trend_loop_p0 s rest = s"

definition trendScan0 :: trendScan where
  "trendScan0 = \<lparr>t_maxTrendUp = 0, t_maxTrendDown = 0, t_trendUp = 1, t_trendDown = 1\<rparr>"

definition analyzeRuns_p0 :: "number list \<Rightarrow> Runs option" where
  "analyzeRuns_p0 data =
     (if length data = 0 then None
      else (case calculateMean_p0 data of
              None \<Rightarrow> None
            | Some mean \<Rightarrow>
                (let s = scan_end (foldl (scan_step mean) runScan0 data);
                     t = trend_loop_p0 trendScan0 data
                 in Some \<lparr>runsAbove = sc_runsAbove s, runsBelow = sc_runsBelow s,
                           maxRunLength = sc_maxRunLength s,
                           maxTrendUp = t_maxTrendUp t, maxTrendDown = t_maxTrendDown t\<rparr>)))"

subsection \<open>Subgroups\<close>

fun movingRanges_p0 :: "number list \<Rightarrow> number list" where
  "movingRanges_p0 (a # b # rest) =
     (let mr = \<bar>b - a\<bar> in (if isFinite mr then [mr] else []) @ movingRanges_p0 (b # rest))"
| "movingRanges_p0 rest = []"

text \<open>
  The loop over the groups returns, for each group it keeps, the pair of the values it
  pushes to \<open>subgroupMeans\<close> and to \<open>subgroupRanges\<close>.
\<close>

function group_loop_p0 :: "number list \<Rightarrow> nat \<Rightarrow> nat \<Rightarrow> (number \<times> number) list" where
  "group_loop_p0 measurements sampleSize i =
     (if 0 < sampleSize \<and> i < length measurements then
        (let group = slice measurements i (i + sampleSize) in
           (if length group \<noteq> 0
            then [(orZero (calculateMean_p0 group), Math_max group - Math_min group)] else [])
           @ group_loop_p0 measurements sampleSize (i + sampleSize))
      else [])"
  by pat_completeness auto
termination
  by (relation "measure (\<lambda>(m, s, i). length m - i)") auto

subsection \<open>The analysis\<close>

text \<open>
  The local values of \<open>calculateAnalysisData\<close> after its two checks, each under the name
  of its \<open>const\<close> or \<open>let\<close> with the prefix \<open>w_\<close>.
\<close>

record locals_p0 =
  w_measurements :: "number list"
  w_lsl :: number
  w_usl :: number
  w_subgroupRanges :: "number list"
  w_subgroupMeans :: "number list"
  w_grandMean :: number
  w_avgRange :: number
  w_stdDev :: number
  w_xBarUcl :: number
  w_xBarLcl :: number
  w_rangeUcl :: number
  w_rangeLcl :: number
  w_withinStdDev :: number
  w_cp :: number
  w_cpu :: number
  w_cpl :: number
  w_cpk :: number
  w_pp :: number
  w_ppu :: number
  w_ppl :: number
  w_ppk :: number
  w_distribution :: Distribution
  w_runs :: Runs

text \<open>
  \<open>validData[0]\<close> is read after the check of the number of measurements, so the list
  has a first record.
\<close>

definition analysis_locals_p0 ::
  "InspectionData list \<Rightarrow> nat \<Rightarrow> constants \<Rightarrow> number list \<Rightarrow> locals_p0" where
  "analysis_locals_p0 validData sampleSize cs measurements =
     (let lsl = FromSpecification (validData ! 0);
          usl = ToSpecification (validData ! 0);
          groups = group_loop_p0 measurements sampleSize 0;
          subgroupRanges = (if sampleSize = 1 then movingRanges_p0 measurements
                            else map snd groups);
          subgroupMeans = (if sampleSize = 1
                           then map (\<lambda>v. if isFinite v then v else Fin 0) measurements
                           else map fst groups);
          grandMean = orZero (calculateMean_p0 subgroupMeans);
          avgRange = orZero (calculateMean_p0 subgroupRanges);
          stdDev = orZero (calculateStdDev_p0 measurements (Some grandMean));
          xBarUcl = grandMean + A2 cs * avgRange;
          xBarLcl = grandMean - A2 cs * avgRange;
          rangeUcl = D4 cs * avgRange;
          rangeLcl = D3 cs * avgRange;
          withinStdDev = (if sampleSize = 1 then avgRange / d2 cs else avgRange / d2 cs);
          cp = (usl - lsl) / (Fin 6 * withinStdDev);
          cpu = (usl - grandMean) / (Fin 3 * withinStdDev);
          cpl = (grandMean - lsl) / (Fin 3 * withinStdDev);
          cpk = Math_min2 cpu cpl;
          pp = (usl - lsl) / (Fin 6 * stdDev);
          ppu = (usl - grandMean) / (Fin 3 * stdDev);
          ppl = (grandMean - lsl) / (Fin 3 * stdDev);
          ppk = Math_min2 ppu ppl;
          distribution =
            (case calculateDistributionData_p0 measurements lsl usl of
               Some d \<Rightarrow> d
             | None \<Rightarrow>
                 \<lparr>dist_data = [],
                  dist_stats = \<lparr>st_mean = Fin 0, st_target = (lsl + usl) / Fin 2,
                                 st_binEdges = [], st_min = Fin 0, st_max = Fin 0\<rparr>\<rparr>);
          runs =
            (case analyzeRuns_p0 subgroupMeans of
               Some r \<Rightarrow> r
             | None \<Rightarrow> \<lparr>runsAbove = 0, runsBelow = 0, maxRunLength = 0,
                         maxTrendUp = 0, maxTrendDown = 0\<rparr>)
      in \<lparr>w_measurements = measurements, w_lsl = lsl, w_usl = usl,
          w_subgroupRanges = subgroupRanges, w_subgroupMeans = subgroupMeans,
          w_grandMean = grandMean, w_avgRange = avgRange, w_stdDev = stdDev,
          w_xBarUcl = xBarUcl, w_xBarLcl = xBarLcl, w_rangeUcl = rangeUcl, w_rangeLcl = rangeLcl,
          w_withinStdDev = withinStdDev,
          w_cp = cp, w_cpu = cpu, w_cpl = cpl, w_cpk = cpk,
          w_pp = pp, w_ppu = ppu, w_ppl = ppl, w_ppk = ppk,
          w_distribution = distribution, w_runs = runs\<rparr>)"

text \<open>The returned object.\<close>

definition analysis_result_p0 :: "locals_p0 \<Rightarrow> AnalysisData" where
  "analysis_result_p0 w =
     \<lparr>r_metrics =
        \<lparr>m_xBar = w_grandMean w,
         m_stdDevOverall = w_stdDev w,
         m_stdDevWithin = w_withinStdDev w,
         m_avgRange = w_avgRange w,
         m_cp = w_cp w, m_cpu = w_cpu w, m_cpl = w_cpl w, m_cpk = w_cpk w,
         m_pp = w_pp w, m_ppu = w_ppu w, m_ppl = w_ppl w, m_ppk = w_ppk w,
         m_lsl = w_lsl w, m_usl = w_usl w,
         m_target = (w_lsl w + w_usl w) / Fin 2\<rparr>,
      r_controlCharts =
        \<lparr>cc_xBarData = chartPoints (w_subgroupMeans w),
         cc_rangeData = chartPoints (w_subgroupRanges w),
         cc_limits =
           \<lparr>lim_xBarUcl = w_xBarUcl w,
            lim_xBarMean = w_grandMean w,
            lim_xBarLcl = w_xBarLcl w,
            lim_rangeUcl = w_rangeUcl w,
            lim_rangeMean = w_avgRange w,
            lim_rangeLcl = w_rangeLcl w,
            lim_Agostinho =
              \<bar>w_grandMean w - st_mean (dist_stats (w_distribution w))\<bar> / w_stdDev w\<rparr>\<rparr>,
      r_distribution = w_distribution w,
      r_ssAnalysis =
        \<lparr>ss_processShift = (if w_cpk w < Fin 0.75 * w_cp w then ''Yes'' else ''No''),
         ss_processSpread = (if w_cp w < Fin 1 then ''Yes'' else ''No''),
         ss_specialCausePresent =
           (if w_cp w \<le> w_pp w then ''Special Cause Detection impossible''
            else if w_pp w < Fin 0.75 * w_cp w then ''Yes'' else ''No''),
         ss_pointsOutsideLimits =
           (if 0 < length (filter (\<lambda>y. w_xBarUcl w < y \<or> y < w_xBarLcl w) (w_subgroupMeans w))
            then ''Points Detected'' else ''None''),
         ss_rangePointsOutsideLimits =
           (if 0 < length (filter (\<lambda>y. w_rangeUcl w < y \<or> y < w_rangeLcl w) (w_subgroupRanges w))
            then ''Points Detected'' else ''None''),
         ss_eightConsecutivePoints = (if 8 \<le> maxRunLength (w_runs w) then ''Yes'' else ''No''),
         ss_sixConsecutiveTrend =
           (if 6 \<le> max (maxTrendUp (w_runs w)) (maxTrendDown (w_runs w)) then ''Yes'' else ''No'')\<rparr>,
      r_processInterpretation =
        \<lparr>pi_decisionRemark =
           (if Fin 1.67 \<le> w_cpk w then ''Process Excellent''
            else if Fin 1.45 \<le> w_cpk w then ''Process more capable, improve''
            else if Fin 1.33 \<le> w_cpk w then ''Process capable''
            else if Fin 1.0 \<le> w_cpk w then ''Slightly capable''
            else ''Stop and fix''),
         pi_processPotential =
           (if Fin 1.33 \<le> w_cp w then ''Excellent''
            else if Fin 1.0 \<le> w_cp w then ''Good'' else ''Poor''),
         pi_processPerformance =
           (if Fin 1.33 \<le> w_cpk w then ''Excellent''
            else if Fin 1.0 \<le> w_cpk w then ''Good'' else ''Poor''),
         pi_processStability =
           (if list_all (\<lambda>y. w_xBarLcl w \<le> y \<and> y \<le> w_xBarUcl w) (w_subgroupMeans w)
               \<and> maxRunLength (w_runs w) = 0
            then ''Stable'' else ''Unstable''),
         pi_processShift = (if 8 \<le> maxRunLength (w_runs w) then ''Present'' else ''Not Detected'')\<rparr>\<rparr>"

text \<open>
  The function up to its \<open>return\<close>: the two checks, each of which throws, and the local
  values.
\<close>

definition analysis_body_p0 :: "InspectionData list \<Rightarrow> int \<Rightarrow> error + locals_p0" where
  "analysis_body_p0 inspectionData sampleSize =
     (case controlChartConstants sampleSize of
        None \<Rightarrow> Inl (Error ''Invalid sample size'')
      | Some cs \<Rightarrow>
          (let validData =
                 filter (\<lambda>d. isFinite (ActualSpecification d) \<and> isFinite (FromSpecification d)
                              \<and> isFinite (ToSpecification d)) inspectionData;
               measurements = map ActualSpecification validData
           in if int (length measurements) < sampleSize
              then Inl (Error ''Insufficient data'')
              else Inr (analysis_locals_p0 validData (nat sampleSize) cs measurements)))"

definition calculateAnalysisData_p0 :: "InspectionData list \<Rightarrow> int \<Rightarrow> error + AnalysisData" where
  "calculateAnalysisData_p0 inspectionData sampleSize =
     (case analysis_body_p0 inspectionData sampleSize of
        Inl e \<Rightarrow> Inl e
      | Inr w \<Rightarrow> Inr (analysis_result_p0 w))"

section \<open>Sample inputs and projections\<close>

text \<open>
  The records of a measurement series whose records all carry the specification limits
  \<open>l\<close> and \<open>u\<close>.
\<close>

definition measured :: "real \<Rightarrow> real \<Rightarrow> real list \<Rightarrow> InspectionData list" where
  "measured l u xs =
     map (\<lambda>a. \<lparr>ActualSpecification = Fin a, FromSpecification = Fin l,
                 ToSpecification = Fin u\<rparr>) xs"

text \<open>The eight capability indices of a result: Cp, Cpu, Cpl, Cpk, Pp, Ppu, Ppl, Ppk.\<close>

definition indices :: "AnalysisData \<Rightarrow> number list" where
  "indices r =
     map (\<lambda>f. f (r_metrics r)) [m_cp, m_cpu, m_cpl, m_cpk, m_pp, m_ppu, m_ppl, m_ppk]"

text \<open>The values of the X-bar chart and of the range chart of a result.\<close>

definition xBarSeries :: "AnalysisData \<Rightarrow> number list" where
  "xBarSeries r = map snd (cc_xBarData (r_controlCharts r))"

definition rangeSeries :: "AnalysisData \<Rightarrow> number list" where
  "rangeSeries r = map snd (cc_rangeData (r_controlCharts r))"

section \<open>Notions of the claims\<close>

text \<open>
  The longest run and the current run of a list, for the proofs about the loops that
  count consecutive points: \<open>run_scan P xs\<close> is the pair of the largest number of
  consecutive elements of \<open>xs\<close> that satisfy \<open>P\<close> and of the number of elements at the
  end of \<open>xs\<close> that satisfy \<open>P\<close>.
\<close>

definition run_scan :: "('a \<Rightarrow> bool) \<Rightarrow> 'a list \<Rightarrow> nat \<times> nat" where
  "run_scan P xs =
     foldl (\<lambda>(m, c) x. if P x then (max m (c + 1), c + 1) else (m, 0)) (0, 0) xs"

text \<open>
  What the trend loop of \<^verbatim>\<open>unnamed/part_000\<close> has reached after the pairs \<open>ps\<close> of
  neighbouring points: each counter is one more than the current run of rises or falls,
  each maximum one more than the longest run once a pair has been read.
\<close>

definition trend_inv :: "(number \<times> number) list \<Rightarrow> trendScan \<Rightarrow> bool" where
  "trend_inv ps s =
     (t_trendUp s = 1 + snd (run_scan (\<lambda>(a, b). a < b) ps)
      \<and> t_trendDown s = 1 + snd (run_scan (\<lambda>(a, b). b < a) ps)
      \<and> t_maxTrendUp s = (if ps = [] then 0 else 1 + fst (run_scan (\<lambda>(a, b). a < b) ps))
      \<and> t_maxTrendDown s = (if ps = [] then 0 else 1 + fst (run_scan (\<lambda>(a, b). b < a) ps)))"

section \<open>Finite numbers\<close>

lemma overflowThreshold_pos: "0 < overflowThreshold"
  by (simp add: overflowThreshold_def)

lemma ofReal_small:
  "- 1000000000000000 \<le> r \<Longrightarrow> r \<le> 1000000000000000 \<Longrightarrow> ofReal r = Fin r"
  by (auto simp: ofReal_def overflowThreshold_def)

lemma ofReal_zero [simp]: "ofReal 0 = Fin 0"
  by (simp add: ofReal_small)

lemma ofReal_cases: "ofReal r = Fin r \<or> ofReal r = PInf \<or> ofReal r = NInf"
  by (simp add: ofReal_def)

lemma Fin_le [simp]: "(Fin a \<le> Fin b) = (a \<le> b)"
  by (auto simp: less_eq_number_def)

lemma ofReal_nonneg: "0 \<le> r \<Longrightarrow> Fin 0 \<le> ofReal r"
  using overflowThreshold_pos by (auto simp: ofReal_def less_eq_number_def)

lemma Fin_minus: "Fin a - Fin b = ofReal (a - b)"
  by (simp add: minus_number_def)

lemma isFinite_iff: "isFinite x = (\<exists>r. x = Fin r)"
  by (cases x) auto

lemma all_finite_map_Fin: "list_all isFinite xs \<Longrightarrow> \<exists>rs. xs = map Fin rs"
proof (induction xs)
  case Nil
  then show ?case by simp
next
  case (Cons x xs)
  then obtain r rs where "x = Fin r" "xs = map Fin rs"
    by (auto simp: isFinite_iff)
  then have "x # xs = map Fin (r # rs)" by simp
  then show ?case by (rule exI)
qed

lemma foldl_max_Fin: "foldl Math_max2 (Fin a) (map Fin rs) = Fin (Max (set (a # rs)))"
proof (induction rs arbitrary: a)
  case Nil
  then show ?case by simp
next
  case (Cons r rs)
  have "Math_max2 (Fin a) (Fin r) = Fin (max a r)"
    by (simp add: Math_max2_def max_def)
  moreover have "Max (set (max a r # rs)) = Max (set (a # r # rs))"
    by (cases rs) (simp_all add: max.assoc)
  ultimately show ?case using Cons.IH [of "max a r"] by simp
qed

lemma foldl_min_Fin: "foldl Math_min2 (Fin a) (map Fin rs) = Fin (Min (set (a # rs)))"
proof (induction rs arbitrary: a)
  case Nil
  then show ?case by simp
next
  case (Cons r rs)
  have "Math_min2 (Fin a) (Fin r) = Fin (min a r)"
    by (auto simp add: Math_min2_def min_def)
  moreover have "Min (set (min a r # rs)) = Min (set (a # r # rs))"
    by (cases rs) (simp_all add: min.assoc)
  ultimately show ?case using Cons.IH [of "min a r"] by simp
qed

lemma Math_max_Fin: "rs \<noteq> [] \<Longrightarrow> Math_max (map Fin rs) = Fin (Max (set rs))"
  by (cases rs) (simp_all add: Math_max_def Math_max2_def foldl_max_Fin)

lemma Math_min_Fin: "rs \<noteq> [] \<Longrightarrow> Math_min (map Fin rs) = Fin (Min (set rs))"
  by (cases rs) (simp_all add: Math_min_def Math_min2_def foldl_min_Fin)

lemma zero_times: "Fin 0 * a = (if isFinite a then Fin 0 else NaN)"
  by (cases a) simp_all

lemma not_less_zero: "Fin 0 \<le> y \<Longrightarrow> \<not> y < Fin 0"
  by (cases y) (auto simp: less_eq_number_def)

lemma not_less_NaN: "\<not> y < NaN"
  by (cases y) simp_all

lemma less_number_asym: "a < b \<Longrightarrow> \<not> b < (a :: number)"
  by (cases a; cases b) auto

section \<open>Evaluation\<close>

declare xBar_loop.simps [simp del] range_loop.simps [simp del] group_loop_p0.simps [simp del]
  toString_nat.simps [simp del]

lemmas number_defs =
  minus_number_def less_eq_number_def strictEq_def zero_number_def
  Math_max_def Math_min_def Math_max2_def Math_min2_def reduce_sum_def slice_def ofReal_small

lemmas loop_simps = xBar_loop.simps range_loop.simps group_loop_p0.simps

lemmas app_defs =
  calculateAnalysisData_def analysis_body_def analysis_locals_def analysis_result_def
  calculateMean_def calculateStdDev_def calculateSubgroupXBar_def calculateSubgroupRanges_def
  runState0_def mean_step_def trend_step_def finiteOrZero_def

lemmas p0_defs =
  calculateAnalysisData_p0_def analysis_body_p0_def analysis_locals_p0_def analysis_result_p0_def
  calculateMean_p0_def calculateStdDev_p0_def analyzeRuns_p0_def
  scan_step_def scan_end_def close_run_def runScan0_def trendScan0_def trend_step_p0_def

lemmas eval_defs =
  measured_def indices_def xBarSeries_def rangeSeries_def chartPoints_def
  controlChartConstants_def Let_def number_defs loop_simps app_defs p0_defs

section \<open>The two checks\<close>

lemma constants_None: "(controlChartConstants ss = None) = (ss \<notin> {1..5})"
  by (auto simp: controlChartConstants_def)

lemma constants_Some: "controlChartConstants ss = Some cs \<Longrightarrow> ss \<in> {1..5}"
  using constants_None [of ss] by auto

lemma D3_zero: "controlChartConstants ss = Some cs \<Longrightarrow> D3 cs = Fin 0"
  by (auto simp: controlChartConstants_def split: if_splits)

lemma analysis_body_cases:
  "analysis_body ds ss =
     (if ss \<notin> {1..5} then Inl (Error ''Sample size must be between 1 and 5'')
      else if int (length (filter (\<lambda>m. \<not> isNaN m) (map ActualSpecification ds))) < ss
        then Inl (Error ''Insufficient valid data for analysis'')
      else Inr (analysis_locals ds (nat ss) (the (controlChartConstants ss))
             (filter (\<lambda>m. \<not> isNaN m) (map ActualSpecification ds))))"
  using constants_None [of ss]
  by (auto simp: analysis_body_def Let_def split: option.splits)

lemma analysis_body_p0_cases:
  "analysis_body_p0 ds ss =
     (if ss \<notin> {1..5} then Inl (Error ''Invalid sample size'')
      else if int (length (filter (\<lambda>d. isFinite (ActualSpecification d) \<and> isFinite (FromSpecification d)
                              \<and> isFinite (ToSpecification d)) ds)) < ss
        then Inl (Error ''Insufficient data'')
      else Inr (analysis_locals_p0 (filter (\<lambda>d. isFinite (ActualSpecification d) \<and> isFinite (FromSpecification d)
                              \<and> isFinite (ToSpecification d)) ds) (nat ss) (the (controlChartConstants ss))
             (map ActualSpecification (filter (\<lambda>d. isFinite (ActualSpecification d) \<and> isFinite (FromSpecification d)
                              \<and> isFinite (ToSpecification d)) ds))))"
  using constants_None [of ss]
  by (auto simp: analysis_body_p0_def Let_def split: option.splits)

section \<open>Ranges\<close>

lemma slice_all: "list_all P xs \<Longrightarrow> list_all P (slice xs a b)"
  unfolding slice_def list_all_iff
  by (meson in_set_dropD in_set_takeD)

lemma range_nonneg:
  assumes "list_all isFinite g" "g \<noteq> []"
  shows "Fin 0 \<le> Math_max g - Math_min g"
proof -
  obtain rs where g: "g = map Fin rs" using assms(1) all_finite_map_Fin by blast
  with assms(2) have ne: "rs \<noteq> []" by auto
  then have "Min (set rs) \<le> Max (set rs)" by simp
  then have "Fin 0 \<le> ofReal (Max (set rs) - Min (set rs))"
    by (intro ofReal_nonneg) simp
  then show ?thesis using ne by (simp add: g Math_max_Fin Math_min_Fin Fin_minus)
qed

lemma abs_diff_nonneg: "isFinite a \<Longrightarrow> isFinite b \<Longrightarrow> Fin 0 \<le> \<bar>b - a\<bar>"
proof -
  assume "isFinite a" "isFinite b"
  then obtain ra rb where ab: "a = Fin ra" "b = Fin rb" by (auto simp: isFinite_iff)
  show ?thesis
    using ofReal_cases [of "rb - ra"] by (auto simp: ab Fin_minus less_eq_number_def)
qed

lemma movingRanges_nonneg:
  "list_all isFinite ms \<Longrightarrow> list_all (\<lambda>y. Fin 0 \<le> y) (movingRanges ms)"
  by (induction ms rule: movingRanges.induct) (simp_all add: abs_diff_nonneg)

lemma range_loop_nonneg:
  "list_all isFinite ms \<Longrightarrow> list_all (\<lambda>y. Fin 0 \<le> y) (range_loop ms s i)"
proof (induction ms s i rule: range_loop.induct)
  case (1 ms s i)
  show ?case
  proof (cases "0 < s \<and> i < length ms")
    case True
    let ?g = "slice ms i (min (i + s) (length ms))"
    have fin: "list_all isFinite ?g" using "1.prems" by (rule slice_all)
    have rest: "list_all (\<lambda>y. Fin 0 \<le> y) (range_loop ms s (i + s))"
      using "1.IH" [OF True refl] "1.prems" by simp
    have "1 < length ?g \<Longrightarrow> ?g \<noteq> []" by auto
    with fin rest True show ?thesis
      by (subst range_loop.simps) (simp add: Let_def range_nonneg)
  next
    case False
    then show ?thesis by (subst range_loop.simps) auto
  qed
qed

lemma calculateSubgroupRanges_nonneg:
  "list_all isFinite ms \<Longrightarrow> list_all (\<lambda>y. Fin 0 \<le> y) (calculateSubgroupRanges ms s)"
  by (simp add: calculateSubgroupRanges_def movingRanges_nonneg range_loop_nonneg)

lemma movingRanges_p0_nonneg:
  "list_all isFinite ms \<Longrightarrow> list_all (\<lambda>y. Fin 0 \<le> y) (movingRanges_p0 ms)"
  by (induction ms rule: movingRanges_p0.induct) (simp_all add: abs_diff_nonneg Let_def)

lemma group_loop_p0_nonneg:
  "list_all isFinite ms \<Longrightarrow> list_all (\<lambda>y. Fin 0 \<le> y) (map snd (group_loop_p0 ms s i))"
proof (induction ms s i rule: group_loop_p0.induct)
  case (1 ms s i)
  show ?case
  proof (cases "0 < s \<and> i < length ms")
    case True
    let ?g = "slice ms i (i + s)"
    have fin: "list_all isFinite ?g" using "1.prems" by (rule slice_all)
    have rest: "list_all (\<lambda>y. Fin 0 \<le> y) (map snd (group_loop_p0 ms s (i + s)))"
      using "1.IH" [OF True refl] "1.prems" by simp
    have "length ?g \<noteq> 0 \<Longrightarrow> ?g \<noteq> []" by auto
    with fin rest True show ?thesis
      by (subst group_loop_p0.simps) (simp add: Let_def range_nonneg)
  next
    case False
    then show ?thesis by (subst group_loop_p0.simps) auto
  qed
qed

text \<open>The mean of values that are at least 0 is at least 0: a finite value or \<open>Infinity\<close>.\<close>

lemma nonneg_cases: "Fin 0 \<le> y \<Longrightarrow> (\<exists>r\<ge>0. y = Fin r) \<or> y = PInf"
  by (cases y) (auto simp: less_eq_number_def)

lemma plus_nonneg: "Fin 0 \<le> a \<Longrightarrow> Fin 0 \<le> b \<Longrightarrow> Fin 0 \<le> a + b"
proof -
  assume "Fin 0 \<le> a" "Fin 0 \<le> b"
  then consider ra rb where "a = Fin ra" "b = Fin rb" "0 \<le> ra" "0 \<le> rb"
    | "a = PInf" "b \<noteq> NInf" "b \<noteq> NaN" | "b = PInf" "a \<noteq> NInf" "a \<noteq> NaN"
    using nonneg_cases [of a] nonneg_cases [of b] by auto
  then show ?thesis
  proof cases
    case 1
    then show ?thesis using ofReal_nonneg [of "ra + rb"] by simp
  next
    case 2
    then show ?thesis by (cases b) (simp_all add: less_eq_number_def)
  next
    case 3
    then show ?thesis by (cases a) (simp_all add: less_eq_number_def)
  qed
qed

lemma foldl_plus_nonneg:
  "Fin 0 \<le> a \<Longrightarrow> list_all (\<lambda>y. Fin 0 \<le> y) ys \<Longrightarrow> Fin 0 \<le> foldl (+) a ys"
  by (induction ys arbitrary: a) (simp_all add: plus_nonneg)

lemma divide_nonneg: "Fin 0 \<le> a \<Longrightarrow> 0 < n \<Longrightarrow> Fin 0 \<le> a / Fin (real n)"
proof -
  assume a: "Fin 0 \<le> a" and n: "0 < (n :: nat)"
  from nonneg_cases [OF a] show ?thesis
  proof
    assume "\<exists>r\<ge>0. a = Fin r"
    then obtain r where r: "0 \<le> r" "a = Fin r" by blast
    then show ?thesis using n ofReal_nonneg [of "r / real n"] by simp
  next
    assume "a = PInf"
    then show ?thesis by (simp add: less_eq_number_def)
  qed
qed

lemma calculateMean_nonneg:
  assumes "list_all (\<lambda>y. Fin 0 \<le> y) ys"
  shows "Fin 0 \<le> orZero (calculateMean ys)"
proof (cases "ys = []")
  case True
  then show ?thesis by (simp add: calculateMean_def)
next
  case False
  have "Fin 0 \<le> reduce_sum ys"
    unfolding reduce_sum_def using assms by (intro foldl_plus_nonneg) simp_all
  then show ?thesis using False by (simp add: calculateMean_def divide_nonneg)
qed

lemma calculateMean_p0_nonneg:
  assumes "list_all (\<lambda>y. Fin 0 \<le> y) ys"
  shows "Fin 0 \<le> orZero (calculateMean_p0 ys)"
proof (cases "filter isFinite ys = []")
  case True
  then show ?thesis by (simp add: calculateMean_p0_def Let_def)
next
  case False
  have "list_all (\<lambda>y. Fin 0 \<le> y) (filter isFinite ys)"
    using assms by (simp add: list_all_iff)
  then have "Fin 0 \<le> reduce_sum (filter isFinite ys)"
    unfolding reduce_sum_def by (intro foldl_plus_nonneg) simp_all
  then show ?thesis using False by (simp add: calculateMean_p0_def Let_def divide_nonneg)
qed

lemma none_below:
  assumes "list_all (\<lambda>y. Fin 0 \<le> y) ys"
  shows "filter (\<lambda>y. y < Fin 0 * a) ys = []"
    and "filter (\<lambda>y. u < y \<or> y < Fin 0 * a) ys = filter (\<lambda>y. u < y) ys"
proof -
  have "\<not> y < Fin 0 * a" if "y \<in> set ys" for y
  proof -
    from that assms have "Fin 0 \<le> y" by (simp add: list_all_iff)
    then show ?thesis by (simp add: zero_times not_less_zero not_less_NaN)
  qed
  then show "filter (\<lambda>y. y < Fin 0 * a) ys = []"
    and "filter (\<lambda>y. u < y \<or> y < Fin 0 * a) ys = filter (\<lambda>y. u < y) ys"
    by (simp_all add: filter_empty_conv cong: filter_cong)
qed

text \<open>Where a difference or a sum of the ranges reaches the overflow threshold.\<close>

lemma ofReal_exact: "- overflowThreshold < r \<Longrightarrow> r < overflowThreshold \<Longrightarrow> ofReal r = Fin r"
  by (simp add: ofReal_def)

lemma ofReal_overflow: "overflowThreshold \<le> r \<Longrightarrow> ofReal r = PInf"
  by (simp add: ofReal_def)

lemma locals_range_fields:
  "v_measurements (analysis_locals ds n cs ms) = ms"
  "v_rangeValues (analysis_locals ds n cs ms) = calculateSubgroupRanges ms n"
  "v_avgRange (analysis_locals ds n cs ms) = orZero (calculateMean (calculateSubgroupRanges ms n))"
  "v_rangeLcl (analysis_locals ds n cs ms)
     = D3 cs * orZero (calculateMean (calculateSubgroupRanges ms n))"
  "v_pointsOutsideRangeLimits (analysis_locals ds n cs ms)
     = length (filter (\<lambda>y. v_rangeUcl (analysis_locals ds n cs ms) < y
                          \<or> y < v_rangeLcl (analysis_locals ds n cs ms))
                 (calculateSubgroupRanges ms n))"
  by (simp_all add: analysis_locals_def Let_def)

lemma locals_p0_range_fields:
  "w_measurements (analysis_locals_p0 vd n cs ms) = ms"
  "w_subgroupRanges (analysis_locals_p0 vd n cs ms)
     = (if n = 1 then movingRanges_p0 ms else map snd (group_loop_p0 ms n 0))"
  "w_avgRange (analysis_locals_p0 vd n cs ms)
     = orZero (calculateMean_p0 (w_subgroupRanges (analysis_locals_p0 vd n cs ms)))"
  "w_rangeLcl (analysis_locals_p0 vd n cs ms) = D3 cs * w_avgRange (analysis_locals_p0 vd n cs ms)"
  by (simp_all add: analysis_locals_p0_def Let_def)

lemma result_p0_range_label:
  "ss_rangePointsOutsideLimits (r_ssAnalysis (analysis_result_p0 w))
     = (if 0 < length (filter (\<lambda>y. w_rangeUcl w < y \<or> y < w_rangeLcl w) (w_subgroupRanges w))
        then ''Points Detected'' else ''None'')"
  by (simp add: analysis_result_p0_def)

lemma range_chart_app:
  assumes body: "analysis_body ds ss = Inr v" and fin: "list_all isFinite (v_measurements v)"
  shows "(\<exists>cs. controlChartConstants ss = Some cs \<and> D3 cs = Fin 0)
      \<and> list_all (\<lambda>y. Fin 0 \<le> y) (v_rangeValues v)
      \<and> Fin 0 \<le> v_avgRange v
      \<and> v_rangeLcl v = (if isFinite (v_avgRange v) then Fin 0 else NaN)
      \<and> filter (\<lambda>y. y < v_rangeLcl v) (v_rangeValues v) = []
      \<and> v_pointsOutsideRangeLimits v
          = length (filter (\<lambda>y. v_rangeUcl v < y) (v_rangeValues v))"
proof -
  let ?ms = "filter (\<lambda>m. \<not> isNaN m) (map ActualSpecification ds)"
  from body obtain cs where cs: "controlChartConstants ss = Some cs"
    and v: "v = analysis_locals ds (nat ss) cs ?ms"
    by (auto simp: analysis_body_def Let_def split: option.splits if_splits)
  have ms: "list_all isFinite ?ms" using fin by (simp add: v locals_range_fields)
  let ?rs = "calculateSubgroupRanges ?ms (nat ss)"
  have nn: "list_all (\<lambda>y. Fin 0 \<le> y) ?rs"
    using ms by (rule calculateSubgroupRanges_nonneg)
  have rv: "v_rangeValues v = ?rs" by (simp add: v locals_range_fields)
  have avg: "v_avgRange v = orZero (calculateMean ?rs)" by (simp add: v locals_range_fields)
  have lcl: "v_rangeLcl v = Fin 0 * v_avgRange v"
    by (simp add: v locals_range_fields D3_zero [OF cs])
  have cnt: "v_pointsOutsideRangeLimits v
      = length (filter (\<lambda>y. v_rangeUcl v < y \<or> y < v_rangeLcl v) ?rs)"
    by (simp add: v locals_range_fields)
  have "Fin 0 \<le> v_avgRange v" unfolding avg using nn by (rule calculateMean_nonneg)
  moreover have "v_rangeLcl v = (if isFinite (v_avgRange v) then Fin 0 else NaN)"
    unfolding lcl by (rule zero_times)
  moreover have "filter (\<lambda>y. y < v_rangeLcl v) ?rs = []"
    unfolding lcl using nn by (rule none_below)
  moreover have "v_pointsOutsideRangeLimits v = length (filter (\<lambda>y. v_rangeUcl v < y) ?rs)"
    unfolding cnt lcl using none_below(2) [OF nn] by simp
  ultimately show ?thesis
    using cs D3_zero [OF cs] nn by (simp add: rv)
qed

lemma range_chart_p0:
  assumes body: "analysis_body_p0 ds ss = Inr w"
  shows "(\<exists>cs. controlChartConstants ss = Some cs \<and> D3 cs = Fin 0)
      \<and> list_all (\<lambda>y. Fin 0 \<le> y) (w_subgroupRanges w)
      \<and> Fin 0 \<le> w_avgRange w
      \<and> w_rangeLcl w = (if isFinite (w_avgRange w) then Fin 0 else NaN)
      \<and> filter (\<lambda>y. y < w_rangeLcl w) (w_subgroupRanges w) = []
      \<and> ss_rangePointsOutsideLimits (r_ssAnalysis (analysis_result_p0 w))
          = (if 0 < length (filter (\<lambda>y. w_rangeUcl w < y) (w_subgroupRanges w))
             then ''Points Detected'' else ''None'')"
proof -
  let ?vd = "filter (\<lambda>d. isFinite (ActualSpecification d) \<and> isFinite (FromSpecification d)
                              \<and> isFinite (ToSpecification d)) ds"
  let ?ms = "map ActualSpecification ?vd"
  from body obtain cs where cs: "controlChartConstants ss = Some cs"
    and w: "w = analysis_locals_p0 ?vd (nat ss) cs ?ms"
    by (auto simp: analysis_body_p0_def Let_def split: option.splits if_splits)
  have ms: "list_all isFinite ?ms" by (simp add: list_all_iff)
  have nn: "list_all (\<lambda>y. Fin 0 \<le> y) (w_subgroupRanges w)"
    using ms by (simp add: w locals_p0_range_fields movingRanges_p0_nonneg group_loop_p0_nonneg)
  have avg: "w_avgRange w = orZero (calculateMean_p0 (w_subgroupRanges w))"
    by (simp add: w locals_p0_range_fields(3))
  have lcl: "w_rangeLcl w = Fin 0 * w_avgRange w"
    by (simp add: w locals_p0_range_fields(4) D3_zero [OF cs])
  have "Fin 0 \<le> w_avgRange w" unfolding avg using nn by (rule calculateMean_p0_nonneg)
  moreover have "w_rangeLcl w = (if isFinite (w_avgRange w) then Fin 0 else NaN)"
    unfolding lcl by (rule zero_times)
  moreover have "filter (\<lambda>y. y < w_rangeLcl w) (w_subgroupRanges w) = []"
    unfolding lcl using nn by (rule none_below)
  moreover have "ss_rangePointsOutsideLimits (r_ssAnalysis (analysis_result_p0 w))
          = (if 0 < length (filter (\<lambda>y. w_rangeUcl w < y) (w_subgroupRanges w))
             then ''Points Detected'' else ''None'')"
    unfolding result_p0_range_label lcl using none_below(2) [OF nn] by simp
  ultimately show ?thesis
    using cs D3_zero [OF cs] nn by simp
qed

lemma range_overflow_app:
  assumes "overflowThreshold \<le> a - b"
  shows "map_sum id (\<lambda>v. (v_measurements v, v_rangeValues v, v_avgRange v, v_rangeLcl v))
     (analysis_body (measured l u [a, b]) 2) = Inr ([Fin a, Fin b], [PInf], PInf, NaN)"
proof -
  have ba: "b < a" using assms overflowThreshold_pos by linarith
  have "ofReal (a - b) = PInf" using assms by (rule ofReal_overflow)
  with ba show ?thesis
    by (simp add: analysis_body_def controlChartConstants_def measured_def Let_def
      locals_range_fields calculateSubgroupRanges_def range_loop.simps calculateMean_def
      Fin_minus Math_max_def Math_min_def Math_max2_def Math_min2_def reduce_sum_def
      slice_def)
qed

lemma sum_overflow_app:
  assumes "b < a" "a - b < overflowThreshold" "overflowThreshold \<le> (a - b) + (a - b)"
  shows "map_sum id (\<lambda>v. (v_measurements v, v_rangeValues v, v_avgRange v, v_rangeLcl v))
     (analysis_body (measured l u [a, b, a, b]) 2)
       = Inr ([Fin a, Fin b, Fin a, Fin b], [Fin (a - b), Fin (a - b)], PInf, NaN)"
proof -
  have d: "ofReal (a - b) = Fin (a - b)"
    using assms overflowThreshold_pos by (intro ofReal_exact) simp_all
  have dd: "ofReal (a - b + (a - b)) = PInf" using assms(3) by (rule ofReal_overflow)
  from assms(1) d dd show ?thesis
    by (simp add: analysis_body_def controlChartConstants_def measured_def Let_def
      locals_range_fields calculateSubgroupRanges_def range_loop.simps calculateMean_def
      Fin_minus Math_max_def Math_min_def Math_max2_def Math_min2_def reduce_sum_def
      slice_def)
qed

lemma sum_overflow_p0:
  assumes "b < a" "a - b < overflowThreshold" "overflowThreshold \<le> (a - b) + (a - b)"
  shows "map_sum id (\<lambda>w. (w_measurements w, w_subgroupRanges w, w_avgRange w, w_rangeLcl w))
     (analysis_body_p0 (measured l u [a, b, a, b]) 2)
       = Inr ([Fin a, Fin b, Fin a, Fin b], [Fin (a - b), Fin (a - b)], PInf, NaN)"
proof -
  have d: "ofReal (a - b) = Fin (a - b)"
    using assms overflowThreshold_pos by (intro ofReal_exact) simp_all
  have dd: "ofReal (a - b + (a - b)) = PInf" using assms(3) by (rule ofReal_overflow)
  from assms(1) d dd show ?thesis
    by (simp add: analysis_body_p0_def controlChartConstants_def measured_def Let_def
      locals_p0_range_fields group_loop_p0.simps calculateMean_p0_def
      Fin_minus Math_max_def Math_min_def Math_max2_def Math_min2_def reduce_sum_def
      slice_def)
qed

section \<open>Histogram bins\<close>

lemma ceilSqrt_pos: "0 < n \<Longrightarrow> 0 < ceilSqrt n"
proof -
  assume "0 < n"
  then have "1 \<le> sqrt (real n)" by simp
  then have "1 \<le> \<lceil>sqrt (real n)\<rceil>" by linarith
  then show ?thesis by (simp add: ceilSqrt_def)
qed

lemma increment_length [simp]: "length (increment bins i) = length bins"
  by (simp add: increment_def)

lemma increment_sum_le: "sum_list (increment bins i) \<le> Suc (sum_list bins)"
proof (cases "i < length bins")
  case True
  then show ?thesis by (simp add: increment_def sum_list_update)
next
  case False
  then show ?thesis by (simp add: increment_def list_update_beyond)
qed

lemma increment_nth:
  "j < length bins \<Longrightarrow> increment bins i ! j = (if j = i then bins ! j + 1 else bins ! j)"
  by (simp add: increment_def nth_list_update)

lemma bin_step_length [simp]: "length (bin_step mx bc bs bw bins v) = length bins"
  by (simp add: bin_step_def Let_def)

lemma bin_step_sum_le: "sum_list (bin_step mx bc bs bw bins v) \<le> Suc (sum_list bins)"
  by (simp add: bin_step_def Let_def increment_sum_le)

lemma bin_step_last:
  "bc - 1 < length bins \<Longrightarrow>
   bins ! (bc - 1) + (if strictEq v mx then 1 else 0) \<le> bin_step mx bc bs bw bins v ! (bc - 1)"
  by (simp add: bin_step_def Let_def increment_nth)

lemma foldl_bins_length [simp]:
  "length (foldl (bin_step mx bc bs bw) bins vs) = length bins"
  by (induction vs arbitrary: bins) simp_all

lemma foldl_bins_sum_le:
  "sum_list (foldl (bin_step mx bc bs bw) bins vs) \<le> sum_list bins + length vs"
proof (induction vs arbitrary: bins)
  case Nil
  then show ?case by simp
next
  case (Cons v vs)
  have "sum_list (foldl (bin_step mx bc bs bw) (bin_step mx bc bs bw bins v) vs)
        \<le> sum_list (bin_step mx bc bs bw bins v) + length vs"
    by (rule Cons.IH)
  also have "\<dots> \<le> sum_list bins + 1 + length vs"
    using bin_step_sum_le [of mx bc bs bw bins v] by simp
  finally show ?case by simp
qed

lemma foldl_bins_last:
  "bc - 1 < length bins \<Longrightarrow>
   bins ! (bc - 1) + length (filter (\<lambda>v. strictEq v mx) vs)
     \<le> foldl (bin_step mx bc bs bw) bins vs ! (bc - 1)"
proof (induction vs arbitrary: bins)
  case Nil
  then show ?case by simp
next
  case (Cons v vs)
  let ?b = "bin_step mx bc bs bw bins v"
  have len: "bc - 1 < length ?b" using Cons.prems by simp
  from Cons.IH [OF len] bin_step_last [OF Cons.prems, of v mx bs bw] show ?case by auto
qed

text \<open>The same for \<^verbatim>\<open>unnamed/part_000\<close>, which skips the values that are not finite.\<close>

lemma bin_step_p0_length [simp]: "length (bin_step_p0 mx bc bs bw bins v) = length bins"
  by (simp add: bin_step_p0_def Let_def)

lemma bin_step_p0_sum_le: "sum_list (bin_step_p0 mx bc bs bw bins v) \<le> Suc (sum_list bins)"
  by (simp add: bin_step_p0_def Let_def increment_sum_le)

lemma bin_step_p0_last:
  assumes "0 < bc" "bc - 1 < length bins"
  shows "bins ! (bc - 1) + (if isFinite v \<and> strictEq v mx then 1 else 0)
           \<le> bin_step_p0 mx bc bs bw bins v ! (bc - 1)"
proof -
  have "nat \<lfloor>real bc - 1\<rfloor> = bc - 1" using assms(1) by linarith
  moreover have "real bc - 1 < real bc" by simp
  moreover have "0 \<le> real bc - 1" using assms(1) by simp
  ultimately show ?thesis using assms(2)
    by (simp add: bin_step_p0_def Let_def increment_nth)
qed

lemma foldl_bins_p0_length [simp]:
  "length (foldl (bin_step_p0 mx bc bs bw) bins vs) = length bins"
  by (induction vs arbitrary: bins) simp_all

lemma foldl_bins_p0_sum_le:
  "sum_list (foldl (bin_step_p0 mx bc bs bw) bins vs) \<le> sum_list bins + length vs"
proof (induction vs arbitrary: bins)
  case Nil
  then show ?case by simp
next
  case (Cons v vs)
  have "sum_list (foldl (bin_step_p0 mx bc bs bw) (bin_step_p0 mx bc bs bw bins v) vs)
        \<le> sum_list (bin_step_p0 mx bc bs bw bins v) + length vs"
    by (rule Cons.IH)
  also have "\<dots> \<le> sum_list bins + 1 + length vs"
    using bin_step_p0_sum_le [of mx bc bs bw bins v] by simp
  finally show ?case by simp
qed

lemma foldl_bins_p0_last:
  "0 < bc \<Longrightarrow> bc - 1 < length bins \<Longrightarrow>
   bins ! (bc - 1) + length (filter (\<lambda>v. isFinite v \<and> strictEq v mx) vs)
     \<le> foldl (bin_step_p0 mx bc bs bw) bins vs ! (bc - 1)"
proof (induction vs arbitrary: bins)
  case Nil
  then show ?case by simp
next
  case (Cons v vs)
  let ?b = "bin_step_p0 mx bc bs bw bins v"
  have len: "bc - 1 < length ?b" using Cons.prems by simp
  from Cons.IH [OF Cons.prems(1) len] bin_step_p0_last [OF Cons.prems, of v mx bs bw]
  show ?case by auto
qed

lemma histogramPoints_counts [simp]: "map snd (histogramPoints e w bins) = bins"
  by (simp add: histogramPoints_def o_def map_nth)

lemma last_counts:
  "bins \<noteq> [] \<Longrightarrow> snd (last (histogramPoints e w bins)) = bins ! (length bins - 1)"
  using last_map [of "histogramPoints e w bins" snd]
  by (simp add: last_conv_nth histogramPoints_def)

lemma distribution_counts:
  assumes "calculateDistributionData data lsl usl = Some d"
  shows "sum_list (map snd (dist_data d)) \<le> length data"
    and "length (filter (\<lambda>v. strictEq v (st_max (dist_stats d))) data) \<le> snd (last (dist_data d))"
proof -
  let ?bc = "ceilSqrt (length data)"
  let ?mx = "Math_max data"
  let ?bs = "Math_min2 (Math_min data) lsl"
  let ?bw = "(Math_max data - Math_min data) / Fin (real ?bc)"
  let ?bins = "foldl (bin_step ?mx ?bc ?bs ?bw) (replicate ?bc 0) data"
  from assms have ne: "data \<noteq> []" by (auto simp: calculateDistributionData_def)
  then have pos: "0 < ?bc" by (simp add: ceilSqrt_pos)
  from assms ne obtain e where d: "dist_data d = histogramPoints e ?bw ?bins"
    and mx: "st_max (dist_stats d) = ?mx"
    by (auto simp: calculateDistributionData_def Let_def)
  have len: "length ?bins = ?bc" by simp
  show "sum_list (map snd (dist_data d)) \<le> length data"
    using foldl_bins_sum_le [of ?mx ?bc ?bs ?bw "replicate ?bc 0" data]
    by (simp add: d sum_list_replicate)
  have "?bins \<noteq> []"
  proof
    assume "?bins = []"
    then have "length ?bins = 0" by (simp only: list.size)
    with pos show False by simp
  qed
  then have "snd (last (dist_data d)) = ?bins ! (?bc - 1)"
    unfolding d by (simp add: last_counts)
  moreover have "0 + length (filter (\<lambda>v. strictEq v ?mx) data) \<le> ?bins ! (?bc - 1)"
    using foldl_bins_last [of ?bc "replicate ?bc 0" ?mx data ?bs ?bw] pos by simp
  ultimately show "length (filter (\<lambda>v. strictEq v (st_max (dist_stats d))) data)
      \<le> snd (last (dist_data d))"
    by (simp add: mx)
qed

lemma distribution_counts_p0:
  assumes "calculateDistributionData_p0 data lsl usl = Some d"
  shows "sum_list (map snd (dist_data d)) \<le> length data"
    and "length (filter (\<lambda>v. isFinite v \<and> strictEq v (st_max (dist_stats d))) data)
           \<le> snd (last (dist_data d))"
proof -
  let ?bc = "ceilSqrt (length data)"
  let ?mx = "Math_max data"
  let ?bs = "Math_min2 (Math_min data) lsl"
  let ?bw = "(Math_max data - Math_min data) / Fin (real ?bc)"
  let ?bins = "foldl (bin_step_p0 ?mx ?bc ?bs ?bw) (replicate ?bc 0) data"
  from assms have ne: "data \<noteq> []" by (auto simp: calculateDistributionData_p0_def)
  then have pos: "0 < ?bc" by (simp add: ceilSqrt_pos)
  from assms ne obtain e where d: "dist_data d = histogramPoints e ?bw ?bins"
    and mx: "st_max (dist_stats d) = ?mx"
    by (auto simp: calculateDistributionData_p0_def Let_def)
  have len: "length ?bins = ?bc" by simp
  show "sum_list (map snd (dist_data d)) \<le> length data"
    using foldl_bins_p0_sum_le [of ?mx ?bc ?bs ?bw "replicate ?bc 0" data]
    by (simp add: d sum_list_replicate)
  have "?bins \<noteq> []"
  proof
    assume "?bins = []"
    then have "length ?bins = 0" by (simp only: list.size)
    with pos show False by simp
  qed
  then have "snd (last (dist_data d)) = ?bins ! (?bc - 1)"
    unfolding d by (simp add: last_counts)
  moreover have "0 + length (filter (\<lambda>v. isFinite v \<and> strictEq v ?mx) data) \<le> ?bins ! (?bc - 1)"
    using foldl_bins_p0_last [of ?bc "replicate ?bc 0" ?mx data ?bs ?bw] pos by simp
  ultimately show "length (filter (\<lambda>v. isFinite v \<and> strictEq v (st_max (dist_stats d))) data)
      \<le> snd (last (dist_data d))"
    by (simp add: mx)
qed

section \<open>The local values of the analysis\<close>

lemma analysis_body_locals:
  "analysis_body ds ss = Inr v \<Longrightarrow>
   \<exists>cs. controlChartConstants ss = Some cs
      \<and> v = analysis_locals ds (nat ss) cs (filter (\<lambda>m. \<not> isNaN m) (map ActualSpecification ds))"
  by (auto simp: analysis_body_def Let_def split: option.splits if_splits)

lemma analysis_body_p0_locals:
  "analysis_body_p0 ds ss = Inr w \<Longrightarrow>
   \<exists>cs vd. controlChartConstants ss = Some cs
      \<and> vd = filter (\<lambda>d. isFinite (ActualSpecification d) \<and> isFinite (FromSpecification d)
                              \<and> isFinite (ToSpecification d)) ds
      \<and> ss \<le> int (length vd)
      \<and> w = analysis_locals_p0 vd (nat ss) cs (map ActualSpecification vd)"
  by (auto simp: analysis_body_p0_def Let_def split: option.splits if_splits)

lemma locals_xbar_count:
  "v_pointsOutsideXBarLimits (analysis_locals ds n cs ms)
     = length (filter (\<lambda>y. v_xBarUcl (analysis_locals ds n cs ms) < y
                          \<or> y < v_xBarLcl (analysis_locals ds n cs ms))
                 (v_xBarValues (analysis_locals ds n cs ms)))"
  by (simp add: analysis_locals_def Let_def)

lemma locals_p0_means:
  "w_subgroupMeans (analysis_locals_p0 vd n cs ms)
     = (if n = 1 then map (\<lambda>v. if isFinite v then v else Fin 0) ms
        else map fst (group_loop_p0 ms n 0))"
  "w_runs (analysis_locals_p0 vd n cs ms)
     = (case analyzeRuns_p0 (w_subgroupMeans (analysis_locals_p0 vd n cs ms)) of
          Some r \<Rightarrow> r
        | None \<Rightarrow> \<lparr>runsAbove = 0, runsBelow = 0, maxRunLength = 0,
                    maxTrendUp = 0, maxTrendDown = 0\<rparr>)"
  by (simp_all add: analysis_locals_p0_def Let_def)

lemma locals_p0_inputs:
  "w_measurements (analysis_locals_p0 vd n cs ms) = ms"
  "w_lsl (analysis_locals_p0 vd n cs ms) = FromSpecification (vd ! 0)"
  "w_usl (analysis_locals_p0 vd n cs ms) = ToSpecification (vd ! 0)"
  by (simp_all add: analysis_locals_p0_def Let_def)

lemma locals_safe:
  "v_safeWithinStdDev (analysis_locals ds n cs ms)
     = (if strictEq (v_withinStdDev (analysis_locals ds n cs ms)) (Fin 0) then Fin 0.000001
        else v_withinStdDev (analysis_locals ds n cs ms))"
  "v_safeStdDev (analysis_locals ds n cs ms)
     = (if strictEq (v_stdDev (analysis_locals ds n cs ms)) (Fin 0) then Fin 0.000001
        else v_stdDev (analysis_locals ds n cs ms))"
  by (simp_all add: analysis_locals_def Let_def)

lemma finiteOrZero_finite: "isFinite (finiteOrZero c)"
  by (cases c) (simp_all add: finiteOrZero_def)

lemma locals_eight:
  "v_hasEightConsecutive (analysis_locals ds n cs ms)
     = (8 \<le> maxConsecutiveAbove (runs_loop (v_grandMean (analysis_locals ds n cs ms)) None
               runState0 (v_xBarValues (analysis_locals ds n cs ms)))
        \<or> 8 \<le> maxConsecutiveBelow (runs_loop (v_grandMean (analysis_locals ds n cs ms)) None
               runState0 (v_xBarValues (analysis_locals ds n cs ms))))"
  by (simp add: analysis_locals_def Let_def)

section \<open>Subgroups\<close>

lemma slice_full:
  "i + s \<le> length xs \<Longrightarrow> slice (xs @ [x]) i (min (i + s) (length (xs @ [x])))
     = slice xs i (min (i + s) (length xs))"
  by (simp add: slice_def min_def)

lemma slice_last:
  "0 < s \<Longrightarrow> slice (xs @ [x]) (length xs) (min (length xs + s) (length (xs @ [x]))) = [x]"
  by (simp add: slice_def min_def)

lemma loops_snoc:
  assumes "0 < s" "i \<le> length xs" "(length xs - i) mod s = 0"
  shows "xBar_loop (xs @ [x]) s i = xBar_loop xs s i @ [reduce_sum [x] / Fin 1]
       \<and> range_loop (xs @ [x]) s i = range_loop xs s i"
  using assms
proof (induction xs s i rule: xBar_loop.induct)
  case (1 xs s i)
  show ?case
  proof (cases "i < length xs")
    case True
    with "1.prems" have "s \<le> length xs - i"
      by (metis diff_is_0_eq' mod_less nat_less_le not_le zero_less_diff)
    then have full: "i + s \<le> length xs" using True by simp
    then have mod: "(length xs - (i + s)) mod s = 0"
      using "1.prems"(3) by (metis diff_diff_left le_mod_geq \<open>s \<le> length xs - i\<close>)
    have IH: "xBar_loop (xs @ [x]) s (i + s) = xBar_loop xs s (i + s) @ [reduce_sum [x] / Fin 1]
       \<and> range_loop (xs @ [x]) s (i + s) = range_loop xs s (i + s)"
      using "1.IH" [OF _ refl "1.prems"(1) full mod] True "1.prems"(1) by simp
    have lt: "i < length (xs @ [x])" using True by simp
    show ?thesis
      using True lt "1.prems"(1) IH
      by (subst xBar_loop.simps, subst (2) xBar_loop.simps,
          subst range_loop.simps, subst (2) range_loop.simps)
        (simp add: Let_def slice_full [OF full] del: length_append)
  next
    case False
    with "1.prems" have i: "i = length xs" by simp
    have x1: "xBar_loop (xs @ [x]) s (length xs + s) = []"
      using "1.prems"(1) by (subst xBar_loop.simps) auto
    have r1: "range_loop (xs @ [x]) s (length xs + s) = []"
      using "1.prems"(1) by (subst range_loop.simps) auto
    note last1 = x1 r1
    have x0: "xBar_loop xs s (length xs) = []"
      by (subst xBar_loop.simps) auto
    have r0: "range_loop xs s (length xs) = []"
      by (subst range_loop.simps) auto
    note last0 = x0 r0
    have "xBar_loop (xs @ [x]) s (length xs) = [reduce_sum [x] / Fin 1]"
      using "1.prems"(1) last1
      by (subst xBar_loop.simps) (simp add: Let_def slice_last del: length_append, simp)
    moreover have "range_loop (xs @ [x]) s (length xs) = []"
      using "1.prems"(1) last1
      by (subst range_loop.simps) (simp add: Let_def slice_last del: length_append)
    ultimately show ?thesis using last0 by (simp add: i)
  qed
qed

section \<open>Runs\<close>

lemma run_scan_Nil [simp]: "run_scan P [] = (0, 0)"
  by (simp add: run_scan_def)

lemma run_scan_snoc:
  "run_scan P (xs @ [x]) =
     (if P x then (max (fst (run_scan P xs)) (snd (run_scan P xs) + 1), snd (run_scan P xs) + 1)
      else (fst (run_scan P xs), 0))"
  by (simp add: run_scan_def split_beta)

lemma run_scan_current:
  "(k \<le> snd (run_scan P xs))
     = (k \<le> length xs \<and> (\<forall>j<k. P (xs ! (length xs - k + j))))"
proof (induction xs arbitrary: k rule: rev_induct)
  case Nil
  then show ?case by auto
next
  case (snoc x xs)
  show ?case
  proof (cases k)
    case 0
    then show ?thesis by simp
  next
    case (Suc k')
    have idx: "(xs @ [x]) ! (length (xs @ [x]) - k + j)
        = (if j < k' then xs ! (length xs - k' + j) else x)"
      if "j < k" "k' \<le> length xs" for j
      using that Suc by (auto simp: nth_append)
    show ?thesis
    proof (cases "P x")
      case True
      have "(k \<le> snd (run_scan P (xs @ [x]))) = (k' \<le> snd (run_scan P xs))"
        using True Suc by (simp add: run_scan_snoc)
      also have "\<dots> = (k' \<le> length xs \<and> (\<forall>j<k'. P (xs ! (length xs - k' + j))))"
        by (rule snoc.IH)
      also have "\<dots> = (k \<le> length (xs @ [x])
          \<and> (\<forall>j<k. P ((xs @ [x]) ! (length (xs @ [x]) - k + j))))"
      proof (cases "k' \<le> length xs")
        case le: True
        have "(\<forall>j<k. P ((xs @ [x]) ! (length (xs @ [x]) - k + j)))
            = (\<forall>j<k'. P (xs ! (length xs - k' + j)))"
          using idx [OF _ le] True Suc
          by (metis less_Suc_eq less_SucI)
        then show ?thesis using le Suc by simp
      next
        case False
        then show ?thesis using Suc by simp
      qed
      finally show ?thesis .
    next
      case False
      have "\<not> (\<forall>j<k. P ((xs @ [x]) ! (length (xs @ [x]) - k + j)))" if "k' \<le> length xs"
        using idx [of k', OF _ that] False Suc by auto
      then show ?thesis using False Suc by (auto simp: run_scan_snoc)
    qed
  qed
qed

lemma run_scan_longest:
  "0 < k \<Longrightarrow>
   (k \<le> fst (run_scan P xs)) = (\<exists>i. i + k \<le> length xs \<and> (\<forall>j<k. P (xs ! (i + j))))"
proof (induction xs rule: rev_induct)
  case Nil
  then show ?case by simp
next
  case (snoc x xs)
  let ?R = "\<lambda>zs. \<exists>i. i + k \<le> length zs \<and> (\<forall>j<k. P (zs ! (i + j)))"
  have cur: "(k \<le> snd (run_scan P (xs @ [x])))
      = (k \<le> length (xs @ [x]) \<and> (\<forall>j<k. P ((xs @ [x]) ! (length (xs @ [x]) - k + j))))"
    by (rule run_scan_current)
  have step: "?R (xs @ [x]) = (?R xs \<or> k \<le> snd (run_scan P (xs @ [x])))"
  proof
    assume "?R (xs @ [x])"
    then obtain i where i: "i + k \<le> length xs + 1" "\<forall>j<k. P ((xs @ [x]) ! (i + j))"
      by auto
    show "?R xs \<or> k \<le> snd (run_scan P (xs @ [x]))"
    proof (cases "i + k \<le> length xs")
      case True
      then have "\<forall>j<k. P (xs ! (i + j))" using i(2) by (auto simp: nth_append)
      with True show ?thesis by blast
    next
      case False
      with i(1) have "i = length (xs @ [x]) - k" "k \<le> length (xs @ [x])" by simp_all
      with i(2) show ?thesis unfolding cur by simp
    qed
  next
    assume "?R xs \<or> k \<le> snd (run_scan P (xs @ [x]))"
    then show "?R (xs @ [x])"
    proof
      assume "?R xs"
      then obtain i where "i + k \<le> length xs" "\<forall>j<k. P (xs ! (i + j))" by blast
      then have "i + k \<le> length (xs @ [x]) \<and> (\<forall>j<k. P ((xs @ [x]) ! (i + j)))"
        by (auto simp: nth_append)
      then show ?thesis by blast
    next
      assume "k \<le> snd (run_scan P (xs @ [x]))"
      then have a: "k \<le> length (xs @ [x])"
        and b: "\<forall>j<k. P ((xs @ [x]) ! (length (xs @ [x]) - k + j))"
        unfolding cur by blast+
      from a have "length (xs @ [x]) - k + k \<le> length (xs @ [x])" by linarith
      with b show ?thesis by blast
    qed
  qed
  have "(k \<le> fst (run_scan P (xs @ [x])))
      = (k \<le> fst (run_scan P xs) \<or> k \<le> snd (run_scan P (xs @ [x])))"
    using snoc.prems by (auto simp: run_scan_snoc)
  then show ?case using snoc.IH [OF snoc.prems] step by simp
qed

lemma run_scan_single: "run_scan P [x] = (if P x then (1, 1) else (0, 0))"
  by (simp add: run_scan_def)

lemma run_scan_fst_Nil: "ps = [] \<Longrightarrow> fst (run_scan P ps) = 0"
  by simp

lemma runs_loop_above:
  "(maxConsecutiveAbove (runs_loop gm prev s ys), consecutiveAboveMean (runs_loop gm prev s ys))
     = foldl (\<lambda>(m, c) y. if gm < y then (max m (c + 1), c + 1) else (m, 0))
         (maxConsecutiveAbove s, consecutiveAboveMean s) ys"
proof (induction ys arbitrary: s prev)
  case Nil
  then show ?case by simp
next
  case (Cons y ys)
  show ?case
    unfolding runs_loop.simps Cons.IH
    by (simp add: mean_step_def trend_step_def split: option.splits)
qed

lemma mean_step_below:
  "(maxConsecutiveBelow (mean_step gm y s), consecutiveBelowMean (mean_step gm y s))
     = (if y < gm
        then (max (maxConsecutiveBelow s) (consecutiveBelowMean s + 1), consecutiveBelowMean s + 1)
        else (maxConsecutiveBelow s, 0))"
  using less_number_asym [of gm y] by (auto simp: mean_step_def)

lemma trend_step_below:
  "maxConsecutiveBelow (trend_step prev y s) = maxConsecutiveBelow s"
  "consecutiveBelowMean (trend_step prev y s) = consecutiveBelowMean s"
  by (simp_all add: trend_step_def split: option.splits)

lemma runs_loop_below:
  "(maxConsecutiveBelow (runs_loop gm prev s ys), consecutiveBelowMean (runs_loop gm prev s ys))
     = foldl (\<lambda>(m, c) y. if y < gm then (max m (c + 1), c + 1) else (m, 0))
         (maxConsecutiveBelow s, consecutiveBelowMean s) ys"
proof (induction ys arbitrary: s prev)
  case Nil
  then show ?case by simp
next
  case (Cons y ys)
  have "(maxConsecutiveBelow (trend_step prev y (mean_step gm y s)),
         consecutiveBelowMean (trend_step prev y (mean_step gm y s)))
      = (if y < gm
         then (max (maxConsecutiveBelow s) (consecutiveBelowMean s + 1), consecutiveBelowMean s + 1)
         else (maxConsecutiveBelow s, 0))"
    unfolding trend_step_below by (rule mean_step_below)
  then show ?case
    unfolding runs_loop.simps Cons.IH by simp
qed

lemma runs_loop_max:
  "maxConsecutiveAbove (runs_loop gm None runState0 ys) = fst (run_scan (\<lambda>y. gm < y) ys)"
  "maxConsecutiveBelow (runs_loop gm None runState0 ys) = fst (run_scan (\<lambda>y. y < gm) ys)"
  using runs_loop_above [of gm None runState0 ys] runs_loop_below [of gm None runState0 ys]
  by (simp_all add: run_scan_def runState0_def prod_eq_iff)

lemma scan_step_prev: "sc_prevAboveMean (scan_step m s v) \<noteq> None"
  by (simp add: scan_step_def Let_def close_run_def split: option.splits)

lemma scan_step_run:
  "(sc_prevAboveMean s \<noteq> None \<longrightarrow> 1 \<le> sc_currentRun s) \<Longrightarrow> 1 \<le> sc_currentRun (scan_step m s v)"
  by (auto simp add: scan_step_def Let_def close_run_def split: option.splits)

lemma scan_foldl_run:
  "vs \<noteq> [] \<Longrightarrow> (sc_prevAboveMean s \<noteq> None \<longrightarrow> 1 \<le> sc_currentRun s) \<Longrightarrow>
   sc_prevAboveMean (foldl (scan_step m) s vs) \<noteq> None
   \<and> 1 \<le> sc_currentRun (foldl (scan_step m) s vs)"
proof (induction vs arbitrary: s)
  case Nil
  then show ?case by simp
next
  case (Cons v vs)
  show ?case
  proof (cases "vs = []")
    case True
    then show ?thesis using scan_step_prev [of m s v] scan_step_run [OF Cons.prems(2), of m v]
      by simp
  next
    case False
    have "sc_prevAboveMean (scan_step m s v) \<noteq> None \<longrightarrow> 1 \<le> sc_currentRun (scan_step m s v)"
      using scan_step_run [OF Cons.prems(2)] by simp
    from Cons.IH [OF False this] show ?thesis by simp
  qed
qed

lemma scan_end_max:
  "sc_prevAboveMean s \<noteq> None \<Longrightarrow> sc_currentRun s \<le> sc_maxRunLength (scan_end s)"
  by (auto simp: scan_end_def close_run_def)

lemma analyzeRuns_p0_positive:
  assumes "filter isFinite data \<noteq> []"
  shows "\<exists>r. analyzeRuns_p0 data = Some r \<and> 1 \<le> maxRunLength r"
proof -
  from assms have ne: "data \<noteq> []" by auto
  from assms ne obtain m where mean: "calculateMean_p0 data = Some m"
    by (auto simp: calculateMean_p0_def Let_def)
  let ?s = "foldl (scan_step m) runScan0 data"
  have "sc_prevAboveMean ?s \<noteq> None \<and> 1 \<le> sc_currentRun ?s"
    using ne by (intro scan_foldl_run) (simp_all add: runScan0_def)
  then have "1 \<le> sc_maxRunLength (scan_end ?s)"
    using scan_end_max [of ?s] by linarith
  then show ?thesis using ne mean by (simp add: analyzeRuns_p0_def Let_def)
qed

lemma analyzeRuns_p0_None:
  "(analyzeRuns_p0 data = None) = list_all (\<lambda>y. \<not> isFinite y) data"
proof (cases "filter isFinite data = []")
  case True
  then have "list_all (\<lambda>y. \<not> isFinite y) data"
    by (simp add: filter_empty_conv list_all_iff)
  moreover have "analyzeRuns_p0 data = None"
    using True by (simp add: analyzeRuns_p0_def calculateMean_p0_def Let_def)
  ultimately show ?thesis by simp
next
  case False
  then have "\<not> list_all (\<lambda>y. \<not> isFinite y) data"
    by (simp add: filter_empty_conv list_all_iff)
  moreover have "analyzeRuns_p0 data \<noteq> None"
    using analyzeRuns_p0_positive [OF False] by auto
  ultimately show ?thesis by simp
qed

text \<open>
  Of three values that are not finite the second is not above the first and below the
  third: a series without a finite value has no three points in a strict trend.
\<close>

lemma no_chain: "\<not> isFinite b \<Longrightarrow> a < b \<Longrightarrow> b < c \<Longrightarrow> False"
  by (cases a; cases b; cases c) auto

lemma no_trend:
  assumes "list_all (\<lambda>y. \<not> isFinite y) xs"
  shows "\<not> (\<exists>i. i + 6 \<le> length xs \<and> (\<forall>j<5. xs ! (i + j) < xs ! (i + j + 1)))"
    and "\<not> (\<exists>i. i + 6 \<le> length xs \<and> (\<forall>j<5. xs ! (i + j + 1) < xs ! (i + j)))"
proof -
  have nf: "\<not> isFinite (xs ! k)" if "k < length xs" for k
    using assms that by (simp add: list_all_length)
  show "\<not> (\<exists>i. i + 6 \<le> length xs \<and> (\<forall>j<5. xs ! (i + j) < xs ! (i + j + 1)))"
  proof
    assume "\<exists>i. i + 6 \<le> length xs \<and> (\<forall>j<5. xs ! (i + j) < xs ! (i + j + 1))"
    then obtain i where i: "i + 6 \<le> length xs" "\<forall>j<5. xs ! (i + j) < xs ! (i + j + 1)"
      by blast
    have "xs ! i < xs ! (i + 1)" using i(2) [rule_format, of 0] by simp
    moreover have "xs ! (i + 1) < xs ! (i + 2)" using i(2) [rule_format, of 1] by simp
    moreover have "\<not> isFinite (xs ! (i + 1))" using i(1) by (intro nf) simp
    ultimately show False by (rule no_chain [rotated])
  qed
  show "\<not> (\<exists>i. i + 6 \<le> length xs \<and> (\<forall>j<5. xs ! (i + j + 1) < xs ! (i + j)))"
  proof
    assume "\<exists>i. i + 6 \<le> length xs \<and> (\<forall>j<5. xs ! (i + j + 1) < xs ! (i + j))"
    then obtain i where i: "i + 6 \<le> length xs" "\<forall>j<5. xs ! (i + j + 1) < xs ! (i + j)"
      by blast
    have "xs ! (i + 2) < xs ! (i + 1)" using i(2) [rule_format, of 1] by simp
    moreover have "xs ! (i + 1) < xs ! i" using i(2) [rule_format, of 0] by simp
    moreover have "\<not> isFinite (xs ! (i + 1))" using i(1) by (intro nf) simp
    ultimately show False by (rule no_chain [rotated])
  qed
qed

lemma trend_loop_p0_pairs:
  "trend_loop_p0 s xs = foldl (\<lambda>s (a, b). trend_step_p0 a b s) s (zip xs (tl xs))"
  by (induction s xs rule: trend_loop_p0.induct) simp_all

lemma trend_inv_foldl:
  "trend_inv ps (foldl (\<lambda>s (a, b). trend_step_p0 a b s) trendScan0 ps)"
proof (induction ps rule: rev_induct)
  case Nil
  then show ?case by (simp add: trend_inv_def trendScan0_def)
next
  case (snoc p ps)
  obtain a b where p: "p = (a, b)" by (cases p)
  let ?s = "foldl (\<lambda>s (a, b). trend_step_p0 a b s) trendScan0 ps"
  have IH: "trend_inv ps ?s" by (rule snoc.IH)
  consider (up) "a < b" "\<not> b < a" | (down) "\<not> a < b" "b < a" | (level) "\<not> a < b" "\<not> b < a"
    using less_number_asym [of a b] by blast
  then have "trend_inv (ps @ [(a, b)]) (trend_step_p0 a b ?s)"
  proof cases
    case up
    with IH show ?thesis
      by (cases "ps = []") (simp_all add: trend_inv_def run_scan_snoc run_scan_single trend_step_p0_def Let_def)
  next
    case down
    with IH show ?thesis
      by (cases "ps = []") (simp_all add: trend_inv_def run_scan_snoc run_scan_single trend_step_p0_def Let_def)
  next
    case level
    with IH show ?thesis
      by (cases "ps = []") (simp_all add: trend_inv_def run_scan_snoc run_scan_single trend_step_p0_def Let_def)
  qed
  then show ?case by (simp add: p)
qed

lemma pairs_run:
  assumes "0 < k"
  shows "(\<exists>i. i + k \<le> length (zip xs (tl xs)) \<and> (\<forall>j<k. Q (zip xs (tl xs) ! (i + j))))
     = (\<exists>i. i + (k + 1) \<le> length xs \<and> (\<forall>j<k. Q (xs ! (i + j), xs ! (i + j + 1))))"
proof -
  have len: "length (zip xs (tl xs)) = length xs - 1" by simp
  have nth: "zip xs (tl xs) ! n = (xs ! n, xs ! (n + 1))" if "n + 1 < length xs + 1 - 1" "n + 1 \<le> length xs - 1" for n
    using that by (simp add: nth_tl)
  have "(i + k \<le> length (zip xs (tl xs)) \<and> (\<forall>j<k. Q (zip xs (tl xs) ! (i + j))))
      = (i + (k + 1) \<le> length xs \<and> (\<forall>j<k. Q (xs ! (i + j), xs ! (i + j + 1))))" for i
  proof (cases "i + (k + 1) \<le> length xs")
    case True
    then have "zip xs (tl xs) ! (i + j) = (xs ! (i + j), xs ! (i + j + 1))" if "j < k" for j
      using that by (intro nth) simp_all
    then show ?thesis using True by (auto simp: len)
  next
    case False
    then have "\<not> i + k \<le> length xs - 1" using assms by linarith
    then have "\<not> i + k \<le> length (zip xs (tl xs))" unfolding len .
    with False show ?thesis by simp
  qed
  then show ?thesis by simp
qed

lemma analyzeRuns_p0_trend:
  assumes "analyzeRuns_p0 xs = Some q"
  shows "(6 \<le> max (maxTrendUp q) (maxTrendDown q))
     = ((\<exists>i. i + 6 \<le> length xs \<and> (\<forall>j<5. xs ! (i + j) < xs ! (i + j + 1)))
        \<or> (\<exists>i. i + 6 \<le> length xs \<and> (\<forall>j<5. xs ! (i + j + 1) < xs ! (i + j))))"
proof -
  let ?ps = "zip xs (tl xs)"
  let ?t = "trend_loop_p0 trendScan0 xs"
  from assms have q: "maxTrendUp q = t_maxTrendUp ?t" "maxTrendDown q = t_maxTrendDown ?t"
    by (auto simp: analyzeRuns_p0_def Let_def split: if_splits option.splits)
  have inv: "trend_inv ?ps ?t"
    unfolding trend_loop_p0_pairs by (rule trend_inv_foldl)
  have up: "(6 \<le> t_maxTrendUp ?t) = (5 \<le> fst (run_scan (\<lambda>(a, b). a < b) ?ps))"
    using inv run_scan_fst_Nil [of ?ps "\<lambda>(a, b). a < b"] unfolding trend_inv_def
    by (cases "?ps = []") (simp_all del: zip_eq_Nil_iff)
  have down: "(6 \<le> t_maxTrendDown ?t) = (5 \<le> fst (run_scan (\<lambda>(a, b). b < a) ?ps))"
    using inv run_scan_fst_Nil [of ?ps "\<lambda>(a, b). b < a"] unfolding trend_inv_def
    by (cases "?ps = []") (simp_all del: zip_eq_Nil_iff)
  have up': "(\<exists>i. i + 5 \<le> length ?ps \<and> (\<forall>j<5. fst (?ps ! (i + j)) < snd (?ps ! (i + j))))
      = (\<exists>i. i + 6 \<le> length xs \<and> (\<forall>j<5. xs ! (i + j) < xs ! (i + j + 1)))"
    using pairs_run [of 5 xs "\<lambda>p. fst p < snd p"] by simp
  have down': "(\<exists>i. i + 5 \<le> length ?ps \<and> (\<forall>j<5. snd (?ps ! (i + j)) < fst (?ps ! (i + j))))
      = (\<exists>i. i + 6 \<le> length xs \<and> (\<forall>j<5. xs ! (i + j + 1) < xs ! (i + j)))"
    using pairs_run [of 5 xs "\<lambda>p. snd p < fst p"] by simp
  have "(6 \<le> max (maxTrendUp q) (maxTrendDown q))
      = (5 \<le> fst (run_scan (\<lambda>(a, b). a < b) ?ps) \<or> 5 \<le> fst (run_scan (\<lambda>(a, b). b < a) ?ps))"
    using up down by (simp add: q le_max_iff_disj)
  also have "\<dots> = ((\<exists>i. i + 5 \<le> length ?ps \<and> (\<forall>j<5. fst (?ps ! (i + j)) < snd (?ps ! (i + j))))
      \<or> (\<exists>i. i + 5 \<le> length ?ps \<and> (\<forall>j<5. snd (?ps ! (i + j)) < fst (?ps ! (i + j)))))"
    by (simp only: run_scan_longest [of 5, simplified] split_beta)
  also have "\<dots> = ((\<exists>i. i + 6 \<le> length xs \<and> (\<forall>j<5. xs ! (i + j) < xs ! (i + j + 1)))
        \<or> (\<exists>i. i + 6 \<le> length xs \<and> (\<forall>j<5. xs ! (i + j + 1) < xs ! (i + j))))"
    by (simp only: up' down')
  finally show ?thesis .
qed

section \<open>The claims\<close>

subsection \<open>C1: the guard against a zero standard deviation\<close>

text \<open>
  Claim C1: when a standard-deviation estimator is exactly zero the capability engine
  puts \<open>0.000001\<close> in its place before it divides, so that for all-identical
  measurements the eight indices are finite, never an infinity or NaN.

  \<^verbatim>\<open>unnamed/part_000\<close> has no such guard. For five measurements of 10 with the limits 5
  and 15 it divides by the zero estimators and returns \<open>Infinity\<close> for all eight
  indices; with both limits at 10 it returns NaN for all eight. On the first input
  \<^verbatim>\<open>src/app/spcUtils.ts\<close>, which has the guard, returns 1666666.67 eight times.
\<close>

theorem capability_indices_unguarded_p0:
  "map_sum id indices (calculateAnalysisData_p0 (measured 5 15 [10, 10, 10, 10, 10]) 5)
     = Inr [PInf, PInf, PInf, PInf, PInf, PInf, PInf, PInf]
   \<and> map_sum id indices (calculateAnalysisData_p0 (measured 10 10 [10, 10, 10, 10, 10]) 5)
     = Inr [NaN, NaN, NaN, NaN, NaN, NaN, NaN, NaN]
   \<and> map_sum id indices (calculateAnalysisData (measured 5 15 [10, 10, 10, 10, 10]) 5)
     = Inr (replicate 8 (Fin 1666666.67))"
  by (simp add: eval_defs numeral_eq_Suc)

text \<open>
  The guard of \<^verbatim>\<open>src/app/spcUtils.ts\<close>, for every input that passes the two checks: an
  estimator that is exactly zero is replaced by \<open>0.000001\<close>, any other is kept, and the
  divisors \<open>6 * safeWithinStdDev\<close>, \<open>3 * safeWithinStdDev\<close>, \<open>6 * safeStdDev\<close> and
  \<open>3 * safeStdDev\<close> are built on values that are never zero.
\<close>

theorem zero_deviation_guarded:
  "analysis_body ds ss = Inr v \<longrightarrow>
     v_safeWithinStdDev v
       = (if v_withinStdDev v = Fin 0 then Fin 0.000001 else v_withinStdDev v)
     \<and> v_safeStdDev v = (if v_stdDev v = Fin 0 then Fin 0.000001 else v_stdDev v)
     \<and> v_safeWithinStdDev v \<noteq> Fin 0 \<and> v_safeStdDev v \<noteq> Fin 0"
proof
  assume "analysis_body ds ss = Inr v"
  then obtain cs where v: "v = analysis_locals ds (nat ss) cs
      (filter (\<lambda>m. \<not> isNaN m) (map ActualSpecification ds))"
    using analysis_body_locals by blast
  show "v_safeWithinStdDev v
       = (if v_withinStdDev v = Fin 0 then Fin 0.000001 else v_withinStdDev v)
     \<and> v_safeStdDev v = (if v_stdDev v = Fin 0 then Fin 0.000001 else v_stdDev v)
     \<and> v_safeWithinStdDev v \<noteq> Fin 0 \<and> v_safeStdDev v \<noteq> Fin 0"
    unfolding v by (simp add: locals_safe strictEq_def)
qed

text \<open>
  The indices that \<^verbatim>\<open>src/app/spcUtils.ts\<close> returns are finite for every input, since an
  index that is not finite is returned as 0.
\<close>

theorem returned_indices_finite:
  "calculateAnalysisData ds ss = Inr r \<longrightarrow> list_all isFinite (indices r)"
proof
  assume "calculateAnalysisData ds ss = Inr r"
  then obtain v where r: "r = analysis_result v"
    by (cases "analysis_body ds ss") (auto simp: calculateAnalysisData_def)
  have "indices (analysis_result v)
      = map finiteOrZero [v_cp v, v_cpu v, v_cpl v, v_cpk v, v_pp v, v_ppu v, v_ppl v, v_ppk v]"
    by (simp add: indices_def analysis_result_def)
  then show "list_all isFinite (indices r)"
    by (simp add: r finiteOrZero_finite)
qed

subsection \<open>C2: the validator\<close>

text \<open>
  Claim C2: a record is retained only if its three fields parse to finite numbers, and
  the limits are those of the first retained record, not of the first record of the
  input.

  \<^verbatim>\<open>src/app/spcUtils.ts\<close> drops a record only when its measurement is NaN and reads the
  limits from the first record of the input. Here the first record has no numeric
  measurement and the limits 1 and 2, the second has the measurement 10 and the limits 5
  and 15: the analysis runs on the one measurement 10 with the limits 1 and 2 of the
  dropped record. \<^verbatim>\<open>unnamed/part_000\<close> takes the limits 5 and 15. The variant also
  retains a record whose limits are NaN and \<open>Infinity\<close>, which \<^verbatim>\<open>unnamed/part_000\<close>
  drops.
\<close>

theorem limits_of_dropped_record:
  "map_sum id (\<lambda>r. (xBarSeries r, m_lsl (r_metrics r), m_usl (r_metrics r)))
     (calculateAnalysisData
        [\<lparr>ActualSpecification = NaN, FromSpecification = Fin 1, ToSpecification = Fin 2\<rparr>,
         \<lparr>ActualSpecification = Fin 10, FromSpecification = Fin 5, ToSpecification = Fin 15\<rparr>] 1)
     = Inr ([Fin 10], Fin 1, Fin 2)
   \<and> map_sum id (\<lambda>r. (xBarSeries r, m_lsl (r_metrics r), m_usl (r_metrics r)))
     (calculateAnalysisData_p0
        [\<lparr>ActualSpecification = NaN, FromSpecification = Fin 1, ToSpecification = Fin 2\<rparr>,
         \<lparr>ActualSpecification = Fin 10, FromSpecification = Fin 5, ToSpecification = Fin 15\<rparr>] 1)
     = Inr ([Fin 10], Fin 5, Fin 15)
   \<and> map_sum id (\<lambda>r. (xBarSeries r, m_lsl (r_metrics r), m_usl (r_metrics r)))
     (calculateAnalysisData
        [\<lparr>ActualSpecification = Fin 10, FromSpecification = NaN, ToSpecification = PInf\<rparr>] 1)
     = Inr ([Fin 10], NaN, PInf)
   \<and> calculateAnalysisData_p0
        [\<lparr>ActualSpecification = Fin 10, FromSpecification = NaN, ToSpecification = PInf\<rparr>] 1
     = Inl (Error ''Insufficient data'')"
  by (simp add: eval_defs)

text \<open>
  The validator of \<^verbatim>\<open>unnamed/part_000\<close>, for every input that passes the two checks: the
  retained records are those whose three fields are finite, in their order; there is a
  first one; the measurements are the measurements of the retained records; and the
  limits, also as returned, are those of the first retained record.
\<close>

theorem validator_p0:
  "analysis_body_p0 ds ss = Inr w \<longrightarrow>
     (\<exists>first rest.
        filter (\<lambda>d. isFinite (ActualSpecification d) \<and> isFinite (FromSpecification d)
                    \<and> isFinite (ToSpecification d)) ds = first # rest
        \<and> w_measurements w = map ActualSpecification (first # rest)
        \<and> w_lsl w = FromSpecification first
        \<and> w_usl w = ToSpecification first
        \<and> m_lsl (r_metrics (analysis_result_p0 w)) = FromSpecification first
        \<and> m_usl (r_metrics (analysis_result_p0 w)) = ToSpecification first)"
proof
  assume "analysis_body_p0 ds ss = Inr w"
  then obtain cs vd where cs: "controlChartConstants ss = Some cs"
    and vd: "vd = filter (\<lambda>d. isFinite (ActualSpecification d) \<and> isFinite (FromSpecification d)
                              \<and> isFinite (ToSpecification d)) ds"
    and len: "ss \<le> int (length vd)"
    and w: "w = analysis_locals_p0 vd (nat ss) cs (map ActualSpecification vd)"
    using analysis_body_p0_locals by blast
  have "1 \<le> ss" using constants_Some [OF cs] by simp
  with len obtain first rest where fr: "vd = first # rest" by (cases vd) auto
  show "\<exists>first rest.
        filter (\<lambda>d. isFinite (ActualSpecification d) \<and> isFinite (FromSpecification d)
                    \<and> isFinite (ToSpecification d)) ds = first # rest
        \<and> w_measurements w = map ActualSpecification (first # rest)
        \<and> w_lsl w = FromSpecification first
        \<and> w_usl w = ToSpecification first
        \<and> m_lsl (r_metrics (analysis_result_p0 w)) = FromSpecification first
        \<and> m_usl (r_metrics (analysis_result_p0 w)) = ToSpecification first"
    using fr vd by (simp add: w locals_p0_inputs analysis_result_p0_def)
qed

subsection \<open>C3: the two failures\<close>



subsection \<open>C4: the overall standard deviation\<close>

text \<open>
  Claim C4: the overall standard deviation is the population standard deviation of the
  raw series around the grand mean of the subgroup means, not around the mean of the raw
  series.

  \<^verbatim>\<open>src/app/spcUtils.ts\<close> calls \<open>calculateStdDev(measurements)\<close> with no mean, so the
  deviation is taken around the mean of the raw series. For the series 0, 0, 3 in
  subgroups of 2 the subgroup means are 0 and 3, the grand mean is 1.5 and the mean of
  the series is 1: the variant returns the square root of 2, the deviation around 1,
  where the deviation around the grand mean is 1.5, which \<^verbatim>\<open>unnamed/part_000\<close> returns.
\<close>

theorem overall_deviation_around_series_mean:
  "map_sum id (\<lambda>v. (v_xBarValues v, v_grandMean v, v_stdDev v))
     (analysis_body (measured 0 4 [0, 0, 3]) 2)
     = Inr ([Fin 0, Fin 3], Fin (3 / 2), Fin (sqrt 2))
   \<and> map_sum id (\<lambda>w. (w_subgroupMeans w, w_grandMean w, w_stdDev w))
     (analysis_body_p0 (measured 0 4 [0, 0, 3]) 2)
     = Inr ([Fin 0, Fin 3], Fin (3 / 2), Fin (3 / 2))"
  by (simp add: eval_defs real_sqrt_divide power_divide)

subsection \<open>C5: the trend signal\<close>

text \<open>
  Claim C5: the signal \<open>sixConsecutiveTrend\<close> is "Yes" exactly when a strictly increasing
  or strictly decreasing run of consecutive subgroup means, anywhere in the series, has
  length at least 6.

  \<^verbatim>\<open>src/app/spcUtils.ts\<close> compares the counters as they stand after the last point, not
  their maxima. The series 1, ..., 8, 7 with sample size 1 rises over its first eight
  points and falls at the last one, which resets the counter of the rises: the variant
  answers "No". \<^verbatim>\<open>unnamed/part_000\<close> keeps the maxima and answers "Yes".
\<close>

theorem trend_before_last_point_missed:
  "map_sum id (\<lambda>r. (xBarSeries r, ss_sixConsecutiveTrend (r_ssAnalysis r)))
     (calculateAnalysisData (measured 0 10 [1, 2, 3, 4, 5, 6, 7, 8, 7]) 1)
     = Inr (map Fin [1, 2, 3, 4, 5, 6, 7, 8, 7], ''No'')
   \<and> map_sum id (\<lambda>r. (xBarSeries r, ss_sixConsecutiveTrend (r_ssAnalysis r)))
     (calculateAnalysisData_p0 (measured 0 10 [1, 2, 3, 4, 5, 6, 7, 8, 7]) 1)
     = Inr (map Fin [1, 2, 3, 4, 5, 6, 7, 8, 7], ''Yes'')"
  by (simp add: eval_defs)

text \<open>
  The trend signal of \<^verbatim>\<open>unnamed/part_000\<close>, for every input that passes the two checks: it
  is "Yes" exactly when the series of subgroup means has 6 consecutive points, anywhere,
  each strictly above the one before, or 6 consecutive points each strictly below the
  one before. The comparisons are those of the numbers as computed.
\<close>

theorem six_consecutive_trend_p0:
  "analysis_body_p0 ds ss = Inr w \<longrightarrow>
     (ss_sixConsecutiveTrend (r_ssAnalysis (analysis_result_p0 w)) = ''Yes'')
       = ((\<exists>i. i + 6 \<le> length (w_subgroupMeans w)
              \<and> (\<forall>j<5. w_subgroupMeans w ! (i + j) < w_subgroupMeans w ! (i + j + 1)))
          \<or> (\<exists>i. i + 6 \<le> length (w_subgroupMeans w)
              \<and> (\<forall>j<5. w_subgroupMeans w ! (i + j + 1) < w_subgroupMeans w ! (i + j))))"
proof
  assume body: "analysis_body_p0 ds ss = Inr w"
  then obtain cs vd where
    wl: "w = analysis_locals_p0 vd (nat ss) cs (map ActualSpecification vd)"
    using analysis_body_p0_locals by blast
  let ?R = "(\<exists>i. i + 6 \<le> length (w_subgroupMeans w)
              \<and> (\<forall>j<5. w_subgroupMeans w ! (i + j) < w_subgroupMeans w ! (i + j + 1)))
          \<or> (\<exists>i. i + 6 \<le> length (w_subgroupMeans w)
              \<and> (\<forall>j<5. w_subgroupMeans w ! (i + j + 1) < w_subgroupMeans w ! (i + j)))"
  show "(ss_sixConsecutiveTrend (r_ssAnalysis (analysis_result_p0 w)) = ''Yes'') = ?R"
  proof (cases "analyzeRuns_p0 (w_subgroupMeans w)")
    case None
    then have "list_all (\<lambda>y. \<not> isFinite y) (w_subgroupMeans w)"
      by (simp add: analyzeRuns_p0_None)
    then have "\<not> ?R" using no_trend [of "w_subgroupMeans w"] by blast
    moreover have "w_runs w = \<lparr>runsAbove = 0, runsBelow = 0, maxRunLength = 0,
        maxTrendUp = 0, maxTrendDown = 0\<rparr>"
      using None by (simp add: wl locals_p0_means(2))
    ultimately show ?thesis by (simp add: analysis_result_p0_def)
  next
    case (Some q)
    then have runs: "w_runs w = q" by (simp add: wl locals_p0_means(2))
    show ?thesis
      using analyzeRuns_p0_trend [OF Some] by (simp add: analysis_result_p0_def runs)
  qed
qed

subsection \<open>C6: runs above and below the mean\<close>

text \<open>
  Claim C6: a point equal to the grand mean is neither above nor below it and breaks any
  run, and \<open>eightConsecutivePoints\<close> fires exactly when 8 consecutive points are strictly
  above the mean or 8 consecutive points are strictly below it.

  \<^verbatim>\<open>unnamed/part_000\<close> asks of a point only whether it is above the mean, so a point at
  the mean continues a run of points below it. The series below has the grand mean 10;
  four points below it, one point at it and three more points below it count as one run
  of 8, and the variant answers "Yes", although no more than four consecutive points are
  strictly below the mean. \<^verbatim>\<open>src/app/spcUtils.ts\<close> answers "No".
\<close>

theorem run_continues_through_mean_p0:
  "map_sum id (\<lambda>r. (xBarSeries r, m_xBar (r_metrics r), ss_eightConsecutivePoints (r_ssAnalysis r)))
     (calculateAnalysisData_p0 (measured 0 20 [9, 9, 9, 9, 10, 9, 9, 9, 17]) 1)
     = Inr (map Fin [9, 9, 9, 9, 10, 9, 9, 9, 17], Fin 10, ''Yes'')
   \<and> map_sum id (\<lambda>r. (xBarSeries r, m_xBar (r_metrics r), ss_eightConsecutivePoints (r_ssAnalysis r)))
     (calculateAnalysisData (measured 0 20 [9, 9, 9, 9, 10, 9, 9, 9, 17]) 1)
     = Inr (map Fin [9, 9, 9, 9, 10, 9, 9, 9, 17], Fin 10, ''No'')"
  by (simp add: eval_defs)

text \<open>
  The run signal of \<^verbatim>\<open>src/app/spcUtils.ts\<close>, for every input that passes the two checks:
  it is "Yes" exactly when 8 consecutive X-bar values are strictly above the grand mean
  or 8 consecutive X-bar values are strictly below it. A value equal to the grand mean
  is in neither kind of run.
\<close>

theorem eight_consecutive_points:
  "analysis_body ds ss = Inr v \<longrightarrow>
     (ss_eightConsecutivePoints (r_ssAnalysis (analysis_result v)) = ''Yes'')
       = ((\<exists>i. i + 8 \<le> length (v_xBarValues v)
              \<and> (\<forall>j<8. v_grandMean v < v_xBarValues v ! (i + j)))
          \<or> (\<exists>i. i + 8 \<le> length (v_xBarValues v)
              \<and> (\<forall>j<8. v_xBarValues v ! (i + j) < v_grandMean v)))"
proof
  assume "analysis_body ds ss = Inr v"
  then obtain cs where v: "v = analysis_locals ds (nat ss) cs
      (filter (\<lambda>m. \<not> isNaN m) (map ActualSpecification ds))"
    using analysis_body_locals by blast
  have "v_hasEightConsecutive v
      = (8 \<le> fst (run_scan (\<lambda>y. v_grandMean v < y) (v_xBarValues v))
         \<or> 8 \<le> fst (run_scan (\<lambda>y. y < v_grandMean v) (v_xBarValues v)))"
    unfolding v locals_eight runs_loop_max ..
  also have "\<dots> = ((\<exists>i. i + 8 \<le> length (v_xBarValues v)
              \<and> (\<forall>j<8. v_grandMean v < v_xBarValues v ! (i + j)))
          \<or> (\<exists>i. i + 8 \<le> length (v_xBarValues v)
              \<and> (\<forall>j<8. v_xBarValues v ! (i + j) < v_grandMean v)))"
    by (simp only: run_scan_longest [of 8, simplified])
  finally show "(ss_eightConsecutivePoints (r_ssAnalysis (analysis_result v)) = ''Yes'')
       = ((\<exists>i. i + 8 \<le> length (v_xBarValues v)
              \<and> (\<forall>j<8. v_grandMean v < v_xBarValues v ! (i + j)))
          \<or> (\<exists>i. i + 8 \<le> length (v_xBarValues v)
              \<and> (\<forall>j<8. v_xBarValues v ! (i + j) < v_grandMean v)))"
    by (simp add: analysis_result_def)
qed

subsection \<open>C7: process stability\<close>

text \<open>
  Claim C7: \<open>processStability\<close> is "Stable" exactly when no X-bar point is outside the
  control limits and no run of 8 points was detected.

  \<^verbatim>\<open>unnamed/part_000\<close> tests \<open>!runs.maxRunLength\<close>, which holds only for a longest run of
  length 0. On the ten measurements below, in two subgroups of 5, both subgroup means
  11.2 and 11.6 are within the limits 9.327 and 13.473 and \<open>eightConsecutivePoints\<close> is
  "No", yet the variant reports "Unstable". \<^verbatim>\<open>src/app/spcUtils.ts\<close> reports "Stable".
\<close>

theorem stable_process_unstable_p0:
  "map_sum id (\<lambda>r. (xBarSeries r,
                      lim_xBarLcl (cc_limits (r_controlCharts r)),
                      lim_xBarUcl (cc_limits (r_controlCharts r)),
                      ss_eightConsecutivePoints (r_ssAnalysis r),
                      pi_processStability (r_processInterpretation r)))
     (calculateAnalysisData_p0 (measured 5 15 [10, 12, 11, 13, 10, 12, 11, 13, 10, 12]) 5)
     = Inr ([Fin 11.2, Fin 11.6], Fin 9.327, Fin 13.473, ''No'', ''Unstable'')
   \<and> map_sum id (\<lambda>r. (xBarSeries r,
                      lim_xBarLcl (cc_limits (r_controlCharts r)),
                      lim_xBarUcl (cc_limits (r_controlCharts r)),
                      ss_eightConsecutivePoints (r_ssAnalysis r),
                      pi_processStability (r_processInterpretation r)))
     (calculateAnalysisData (measured 5 15 [10, 12, 11, 13, 10, 12, 11, 13, 10, 12]) 5)
     = Inr ([Fin 11.2, Fin 11.6], Fin 9.327, Fin 13.473, ''No'', ''Stable'')"
  by (simp add: eval_defs)

text \<open>
  The label of \<^verbatim>\<open>src/app/spcUtils.ts\<close>, for every input that passes the two checks: it is
  "Stable" exactly when no X-bar value is above the upper or below the lower control
  limit and \<open>eightConsecutivePoints\<close> is "No", and "Unstable" otherwise.
\<close>

theorem stability_label:
  "analysis_body ds ss = Inr v \<longrightarrow>
     (pi_processStability (r_processInterpretation (analysis_result v)) = ''Stable'')
       = (length (filter (\<lambda>y. v_xBarUcl v < y \<or> y < v_xBarLcl v) (v_xBarValues v)) = 0
          \<and> ss_eightConsecutivePoints (r_ssAnalysis (analysis_result v)) = ''No'')
     \<and> (pi_processStability (r_processInterpretation (analysis_result v)) = ''Unstable'')
       = (pi_processStability (r_processInterpretation (analysis_result v)) \<noteq> ''Stable'')"
proof
  assume "analysis_body ds ss = Inr v"
  then obtain cs where "v = analysis_locals ds (nat ss) cs
      (filter (\<lambda>m. \<not> isNaN m) (map ActualSpecification ds))"
    using analysis_body_locals by blast
  then have "v_pointsOutsideXBarLimits v
      = length (filter (\<lambda>y. v_xBarUcl v < y \<or> y < v_xBarLcl v) (v_xBarValues v))"
    by (simp add: locals_xbar_count)
  then show "(pi_processStability (r_processInterpretation (analysis_result v)) = ''Stable'')
       = (length (filter (\<lambda>y. v_xBarUcl v < y \<or> y < v_xBarLcl v) (v_xBarValues v)) = 0
          \<and> ss_eightConsecutivePoints (r_ssAnalysis (analysis_result v)) = ''No'')
     \<and> (pi_processStability (r_processInterpretation (analysis_result v)) = ''Unstable'')
       = (pi_processStability (r_processInterpretation (analysis_result v)) \<noteq> ''Stable'')"
    by (simp add: analysis_result_def)
qed

text \<open>
  The label of \<^verbatim>\<open>unnamed/part_000\<close>, for every input that passes the two checks: it is
  "Stable" exactly when every subgroup mean is within the control limits and no
  subgroup mean is finite. A series with a finite mean has a longest run of length 1
  at least, which the test \<open>!runs.maxRunLength\<close> takes for a run; the length is 0 only
  when \<open>analyzeRuns\<close> returns \<open>null\<close>, for subgroup means that are all infinite.
\<close>

theorem stability_label_p0:
  "analysis_body_p0 ds ss = Inr w \<longrightarrow>
     (pi_processStability (r_processInterpretation (analysis_result_p0 w)) = ''Stable'')
       = (list_all (\<lambda>y. w_xBarLcl w \<le> y \<and> y \<le> w_xBarUcl w) (w_subgroupMeans w)
          \<and> list_all (\<lambda>y. \<not> isFinite y) (w_subgroupMeans w))
     \<and> (pi_processStability (r_processInterpretation (analysis_result_p0 w)) = ''Unstable'')
       = (pi_processStability (r_processInterpretation (analysis_result_p0 w)) \<noteq> ''Stable'')"
proof
  assume "analysis_body_p0 ds ss = Inr w"
  then obtain cs vd where
    wl: "w = analysis_locals_p0 vd (nat ss) cs (map ActualSpecification vd)"
    using analysis_body_p0_locals by blast
  have "(maxRunLength (w_runs w) = 0) = list_all (\<lambda>y. \<not> isFinite y) (w_subgroupMeans w)"
  proof (cases "analyzeRuns_p0 (w_subgroupMeans w)")
    case None
    then show ?thesis using analyzeRuns_p0_None [of "w_subgroupMeans w"]
      by (simp add: wl locals_p0_means(2))
  next
    case (Some q)
    then have "\<not> list_all (\<lambda>y. \<not> isFinite y) (w_subgroupMeans w)"
      using analyzeRuns_p0_None [of "w_subgroupMeans w"] by simp
    then have "filter isFinite (w_subgroupMeans w) \<noteq> []"
      by (simp add: filter_empty_conv list_all_iff)
    then have "1 \<le> maxRunLength q"
      using analyzeRuns_p0_positive [of "w_subgroupMeans w"] Some by auto
    moreover have "w_runs w = q" using Some by (simp add: wl locals_p0_means(2))
    ultimately show ?thesis
      using \<open>\<not> list_all (\<lambda>y. \<not> isFinite y) (w_subgroupMeans w)\<close> by simp
  qed
  then show "(pi_processStability (r_processInterpretation (analysis_result_p0 w)) = ''Stable'')
       = (list_all (\<lambda>y. w_xBarLcl w \<le> y \<and> y \<le> w_xBarUcl w) (w_subgroupMeans w)
          \<and> list_all (\<lambda>y. \<not> isFinite y) (w_subgroupMeans w))
     \<and> (pi_processStability (r_processInterpretation (analysis_result_p0 w)) = ''Unstable'')
       = (pi_processStability (r_processInterpretation (analysis_result_p0 w)) \<noteq> ''Stable'')"
    by (simp add: analysis_result_p0_def)
qed

subsection \<open>C8: the histogram\<close>

text \<open>
  Claim C8: for every non-empty series of finite measurements the bin counts of the
  histogram sum to the number of measurements, and every value equal to the maximum of
  the series is counted in the last bin.

  Both variants start the bins at the smaller of the minimum of the series and the
  lower specification limit, but take the bin width from the range of the series alone,
  so that with a limit below the minimum the bins do not reach the data. For the series
  10, 11, 12, 13 with the limits 5 and 15 the two bins are 1.5 wide and have the edges 5,
  6.5 and 8: the values 10, 11 and 12 get the indices 3, 4 and 4, fail the test of the
  index and are counted nowhere. The maximum 13 is counted in the last bin, which ends at
  8. The counts of the four measurements sum to 1.
\<close>

theorem histogram_drops_values:
  "map_sum id (\<lambda>r. (st_binEdges (dist_stats (r_distribution r)),
                      map snd (dist_data (r_distribution r))))
     (calculateAnalysisData (measured 5 15 [10, 11, 12, 13]) 2)
     = Inr ([Fin 5, Fin 6.5, Fin 8], [0, 1])
   \<and> map_sum id (\<lambda>r. (st_binEdges (dist_stats (r_distribution r)),
                      map snd (dist_data (r_distribution r))))
     (calculateAnalysisData_p0 (measured 5 15 [10, 11, 12, 13]) 2)
     = Inr ([Fin 5, Fin 6.5, Fin 8], [0, 1])"
  by (simp add: calculateDistributionData_p0_def calculateDistributionData_def eval_defs
      bin_step_def bin_step_p0_def ceilSqrt_def increment_def numeral_2_eq_2)

text \<open>
  What holds of the counts in both variants, for every series: a measurement is counted
  in one bin at most, so the counts sum to the number of measurements at most, and the
  values equal to the maximum are all counted in the last bin.
\<close>

theorem histogram_counts_at_most:
  "(calculateDistributionData data lsl usl = Some d \<longrightarrow>
      sum_list (map snd (dist_data d)) \<le> length data
      \<and> length (filter (\<lambda>v. strictEq v (st_max (dist_stats d))) data)
          \<le> snd (last (dist_data d)))
   \<and> (calculateDistributionData_p0 data lsl usl = Some d' \<longrightarrow>
      sum_list (map snd (dist_data d')) \<le> length data
      \<and> length (filter (\<lambda>v. isFinite v \<and> strictEq v (st_max (dist_stats d'))) data)
          \<le> snd (last (dist_data d')))"
  using distribution_counts [of data lsl usl d] distribution_counts_p0 [of data lsl usl d']
  by blast

subsection \<open>C9: the range of a final subgroup of one element\<close>

text \<open>
  Claim C9: for a sample size above 1, a final chunk of exactly one element contributes
  its mean to the subgroup means and no value to the subgroup ranges.

  \<^verbatim>\<open>unnamed/part_000\<close> pushes a range for every non-empty group. For the series 1, 2, 3
  in subgroups of 2 the final group holds the one element 3: the variant records the
  means 1.5 and 3 and the ranges 1 and 0. \<^verbatim>\<open>src/app/spcUtils.ts\<close> records the one
  range 1.
\<close>

theorem single_element_range_zero_p0:
  "map_sum id (\<lambda>r. (xBarSeries r, rangeSeries r))
     (calculateAnalysisData_p0 (measured 0 4 [1, 2, 3]) 2)
     = Inr ([Fin 1.5, Fin 3], [Fin 1, Fin 0])
   \<and> map_sum id (\<lambda>r. (xBarSeries r, rangeSeries r))
     (calculateAnalysisData (measured 0 4 [1, 2, 3]) 2)
     = Inr ([Fin 1.5, Fin 3], [Fin 1])"
  by (simp add: eval_defs)

text \<open>
  The subgroups of \<^verbatim>\<open>src/app/spcUtils.ts\<close>, for every series and every sample size above
  1: when the final chunk has exactly one element, the subgroup means are those of the
  series without its last element followed by the mean of that element alone, and the
  subgroup ranges are those of the series without its last element.
\<close>

theorem single_element_chunk:
  "1 < s \<and> length ms mod s = 1 \<longrightarrow>
     calculateSubgroupXBar ms s
       = calculateSubgroupXBar (butlast ms) s @ [reduce_sum [last ms] / Fin 1]
     \<and> calculateSubgroupRanges ms s = calculateSubgroupRanges (butlast ms) s"
proof
  assume a: "1 < s \<and> length ms mod s = 1"
  then have ne: "ms \<noteq> []" by auto
  then have ms: "ms = butlast ms @ [last ms]" by simp
  have "length ms = length ms div s * s + 1"
    using a by (metis div_mult_mod_eq)
  then have "length (butlast ms) = length ms div s * s" by simp
  then have "length (butlast ms) mod s = 0" by simp
  then have "xBar_loop (butlast ms @ [last ms]) s 0
         = xBar_loop (butlast ms) s 0 @ [reduce_sum [last ms] / Fin 1]
       \<and> range_loop (butlast ms @ [last ms]) s 0 = range_loop (butlast ms) s 0"
    using a by (intro loops_snoc) simp_all
  then show "calculateSubgroupXBar ms s
       = calculateSubgroupXBar (butlast ms) s @ [reduce_sum [last ms] / Fin 1]
     \<and> calculateSubgroupRanges ms s = calculateSubgroupRanges (butlast ms) s"
    using a ms by (simp add: calculateSubgroupXBar_def calculateSubgroupRanges_def)
qed

subsection \<open>C10: the lower limit of the range chart\<close>

text \<open>
  Claim C10, as amended: for every input of finite measurements that passes the two
  checks, the entry of the constants table has \<open>D3 = 0\<close>, and every range value and the
  average range are at least 0. The lower control limit of the range chart,
  \<open>D3 * avgRange\<close>, is 0 when the average range is finite and NaN when it is
  \<open>Infinity\<close>. In both cases no range value is below the lower limit, and the count of
  range points outside the limits counts the points above the upper limit only. In
  \<^verbatim>\<open>unnamed/part_000\<close>, which keeps valid records only, the measurements are finite by the
  validation, and the count is read through its label.
\<close>

theorem range_lower_limit:
  "(analysis_body ds ss = Inr v \<and> list_all isFinite (v_measurements v) \<longrightarrow>
      (\<exists>cs. controlChartConstants ss = Some cs \<and> D3 cs = Fin 0)
      \<and> list_all (\<lambda>y. Fin 0 \<le> y) (v_rangeValues v)
      \<and> Fin 0 \<le> v_avgRange v
      \<and> v_rangeLcl v = (if isFinite (v_avgRange v) then Fin 0 else NaN)
      \<and> filter (\<lambda>y. y < v_rangeLcl v) (v_rangeValues v) = []
      \<and> v_pointsOutsideRangeLimits v
          = length (filter (\<lambda>y. v_rangeUcl v < y) (v_rangeValues v)))
   \<and> (analysis_body_p0 ds ss = Inr w \<longrightarrow>
      (\<exists>cs. controlChartConstants ss = Some cs \<and> D3 cs = Fin 0)
      \<and> list_all (\<lambda>y. Fin 0 \<le> y) (w_subgroupRanges w)
      \<and> Fin 0 \<le> w_avgRange w
      \<and> w_rangeLcl w = (if isFinite (w_avgRange w) then Fin 0 else NaN)
      \<and> filter (\<lambda>y. y < w_rangeLcl w) (w_subgroupRanges w) = []
      \<and> ss_rangePointsOutsideLimits (r_ssAnalysis (analysis_result_p0 w))
          = (if 0 < length (filter (\<lambda>y. w_rangeUcl w < y) (w_subgroupRanges w))
             then ''Points Detected'' else ''None''))"
  using range_chart_app [of ds ss v] range_chart_p0 [of ds ss w] by blast

text \<open>The theorem at ten measurements in two subgroups of 5.\<close>

theorem range_lower_limit_witness:
  "\<exists>v w. analysis_body (measured 5 15 [10, 12, 11, 13, 10, 12, 11, 13, 10, 12]) 5 = Inr v
     \<and> list_all isFinite (v_measurements v)
     \<and> v_rangeValues v = [Fin 3, Fin 3]
     \<and> v_avgRange v = Fin 3
     \<and> v_rangeLcl v = Fin 0
     \<and> filter (\<lambda>y. y < v_rangeLcl v) (v_rangeValues v) = []
     \<and> v_pointsOutsideRangeLimits v = length (filter (\<lambda>y. v_rangeUcl v < y) (v_rangeValues v))
     \<and> analysis_body_p0 (measured 5 15 [10, 12, 11, 13, 10, 12, 11, 13, 10, 12]) 5 = Inr w
     \<and> w_subgroupRanges w = [Fin 3, Fin 3]
     \<and> w_avgRange w = Fin 3
     \<and> w_rangeLcl w = Fin 0
     \<and> filter (\<lambda>y. y < w_rangeLcl w) (w_subgroupRanges w) = []"
proof -
  let ?ds = "measured 5 15 [10, 12, 11, 13, 10, 12, 11, 13, 10, 12]"
  obtain v where v: "analysis_body ?ds 5 = Inr v"
    by (simp add: analysis_body_cases measured_def)
  obtain w where w: "analysis_body_p0 ?ds 5 = Inr w"
    by (simp add: analysis_body_p0_cases measured_def)
  have fin: "list_all isFinite (v_measurements v)"
    using v by (auto simp: analysis_body_cases locals_range_fields measured_def)
  have rv: "v_rangeValues v = [Fin 3, Fin 3]" "v_avgRange v = Fin 3"
    using v by (auto simp: analysis_body_cases locals_range_fields eval_defs)
  have rw: "w_subgroupRanges w = [Fin 3, Fin 3]" "w_avgRange w = Fin 3"
    using w by (auto simp: analysis_body_p0_cases locals_p0_range_fields eval_defs)
  from range_lower_limit [of ?ds 5 v w] v w fin rv rw show ?thesis
    by (intro exI [of _ v] exI [of _ w]) simp
qed

text \<open>
  The claim as stated has the lower limit equal to 0 for every input of finite
  measurements. The differences 1.5e308 of the two subgroups of the series 1.7e308,
  0.2e308, 1.7e308, 0.2e308 are finite, but their sum is beyond the largest number: the
  average range is \<open>Infinity\<close> and the lower limit \<open>0 * Infinity\<close> is NaN, in both
  variants. For the series 1e308, -1e308 the range of the one subgroup is itself
  \<open>Infinity\<close>, and \<^verbatim>\<open>src/app/spcUtils.ts\<close> has the lower limit NaN again.
\<close>

theorem range_lower_limit_overflow:
  "map_sum id (\<lambda>v. (v_measurements v, v_rangeValues v, v_avgRange v, v_rangeLcl v))
     (analysis_body (measured 0 1 [17 * 10 ^ 307, 2 * 10 ^ 307, 17 * 10 ^ 307, 2 * 10 ^ 307]) 2)
     = Inr ([Fin (17 * 10 ^ 307), Fin (2 * 10 ^ 307), Fin (17 * 10 ^ 307), Fin (2 * 10 ^ 307)],
            [Fin (15 * 10 ^ 307), Fin (15 * 10 ^ 307)], PInf, NaN)
   \<and> map_sum id (\<lambda>w. (w_measurements w, w_subgroupRanges w, w_avgRange w, w_rangeLcl w))
     (analysis_body_p0 (measured 0 1 [17 * 10 ^ 307, 2 * 10 ^ 307, 17 * 10 ^ 307, 2 * 10 ^ 307]) 2)
     = Inr ([Fin (17 * 10 ^ 307), Fin (2 * 10 ^ 307), Fin (17 * 10 ^ 307), Fin (2 * 10 ^ 307)],
            [Fin (15 * 10 ^ 307), Fin (15 * 10 ^ 307)], PInf, NaN)
   \<and> map_sum id (\<lambda>v. (v_measurements v, v_rangeValues v, v_avgRange v, v_rangeLcl v))
     (analysis_body (measured 0 1 [10 ^ 308, - (10 ^ 308)]) 2)
     = Inr ([Fin (10 ^ 308), Fin (- (10 ^ 308))], [PInf], PInf, NaN)"
proof -
  have d: "(17::real) * 10 ^ 307 - 2 * 10 ^ 307 = 15 * 10 ^ 307" by simp
  have lt: "(2::real) * 10 ^ 307 < 17 * 10 ^ 307" by simp
  have below: "(17::real) * 10 ^ 307 - 2 * 10 ^ 307 < overflowThreshold"
    by (simp add: overflowThreshold_def)
  have above: "overflowThreshold
      \<le> ((17::real) * 10 ^ 307 - 2 * 10 ^ 307) + (17 * 10 ^ 307 - 2 * 10 ^ 307)"
    by (simp add: overflowThreshold_def)
  have diff: "overflowThreshold \<le> 10 ^ 308 - - (10 ^ 308)"
    by (simp add: overflowThreshold_def)
  show ?thesis
    using sum_overflow_app [OF lt below above, of 0 1, unfolded d]
      sum_overflow_p0 [OF lt below above, of 0 1, unfolded d]
      range_overflow_app [OF diff, of 0 1]
    by (intro conjI)
qed

end
